theory Spec2Isabelle
  imports Complex_Main
begin

section \<open>Data model\<close>

text \<open>
  Go strings are byte sequences, which is what \<^typ>\<open>string\<close> is.  A \<open>float64\<close> that
  is decoded from JSON or written as a literal is finite, and the sources only compare
  such values: they are the \<^typ>\<open>real\<close> numbers they denote.  The one arithmetic
  operation of the sources, the product \<open>20 * threshold\<close>, is a \<open>float64\<close>
  multiplication and is modelled with its rounding (see \<open>mul64\<close> below).

  An \<open>error\<close> is either created from a message (\<open>fmt.Errorf\<close> without \<open>%w\<close>) or
  wraps a cause (\<open>fmt.Errorf("msg: %w", err)\<close>).  \<open>nil\<close> is \<open>None\<close> of
  \<open>error option\<close>, and a function with results \<open>(v, error)\<close> returns a pair.
\<close>

datatype error = New string | Wrap string error

fun Error :: "error \<Rightarrow> string" where
  "Error (New msg) = msg"
| "Error (Wrap msg cause) = msg @ '': '' @ Error cause"

fun Unwrap :: "error \<Rightarrow> error option" where
  "Unwrap (New msg) = None"
| "Unwrap (Wrap msg cause) = Some cause"

text \<open>
  Modelled from the spec: the struct \<open>llm.Prompt\<close> and its constructor and options
  (\<open>NewPrompt\<close>, \<open>WithDirectives\<close>, \<open>WithOutput\<close>, \<open>Apply\<close>) are declared outside
  the sources.  A prompt is a textual instruction plus optional directives and examples
  plus an optional description of the output shape; an option overrides or extends one
  field, and \<open>Apply\<close> runs the options in order.
\<close>

record Prompt =
  Input :: string
  Directives :: "string list"
  Output :: string
  Examples :: "string list"

definition NewPrompt :: "string \<Rightarrow> Prompt" where
  "NewPrompt text = \<lparr>Input = text, Directives = [], Output = '''', Examples = []\<rparr>"

definition WithDirectives :: "string list \<Rightarrow> Prompt \<Rightarrow> Prompt" where
  "WithDirectives ds p = p\<lparr>Directives := Directives p @ ds\<rparr>"

definition WithOutput :: "string \<Rightarrow> Prompt \<Rightarrow> Prompt" where
  "WithOutput out p = p\<lparr>Output := out\<rparr>"

definition Apply :: "(Prompt \<Rightarrow> Prompt) list \<Rightarrow> Prompt \<Rightarrow> Prompt" where
  "Apply opts p = fold (\<lambda>opt q. opt q) opts p"

text \<open>
  The assessment object, with the fields of the JSON structure that \<open>assessPrompt\<close>
  requests: four sequences, an overall score and grade, and two further scores.
\<close>

datatype Metric = Metric string real string
datatype Strength = Strength string string
datatype Weakness = Weakness string string
datatype Suggestion = Suggestion string real string

record PromptAssessment =
  Metrics :: "Metric list"
  Strengths :: "Strength list"
  Weaknesses :: "Weakness list"
  Suggestions :: "Suggestion list"
  OverallScore :: real
  OverallGrade :: string
  EfficiencyScore :: real
  AlignmentWithGoal :: real

text \<open>
  An entry pairs a prompt (a pointer, \<open>None\<close> when nil) with its assessment.
  \<open>zeroEntry\<close> is the Go value \<open>OptimizationEntry{}\<close>.
\<close>

record OptimizationEntry =
  Prompt :: "Prompt option"
  Assessment :: PromptAssessment

definition zeroAssessment :: PromptAssessment where
  "zeroAssessment =
    \<lparr>Metrics = [], Strengths = [], Weaknesses = [], Suggestions = [],
     OverallScore = 0, OverallGrade = '''', EfficiencyScore = 0, AlignmentWithGoal = 0\<rparr>"

definition zeroEntry :: OptimizationEntry where
  "zeroEntry = \<lparr>Prompt = None, Assessment = zeroAssessment\<rparr>"

subsection \<open>float64 arithmetic\<close>

text \<open>
  A \<open>float64\<close> is a finite value, an infinity or NaN (IEEE 754 binary64).  A finite
  value is kept as the real number it denotes; the two zeros are one value, as they
  compare equal and the sign of a zero does not reach a comparison.
\<close>

datatype float64 = Finite real | PosInf | NegInf | NaN

text \<open>The number of binary digits of a natural number.\<close>

fun bitLen :: "nat \<Rightarrow> nat" where
  "bitLen n = (if n = 0 then 0 else Suc (bitLen (n div 2)))"

declare bitLen.simps [simp del]

definition pow2 :: "int \<Rightarrow> real" where
  "pow2 e = (if 0 \<le> e then 2 ^ nat e else 1 / 2 ^ nat (- e))"

text \<open>The binary exponent of a positive real \<open>x\<close>: \<open>2 ^ e \<le> x < 2 ^ (e + 1)\<close>.\<close>

definition exponent :: "real \<Rightarrow> int" where
  "exponent x =
    (if 1 \<le> x then int (bitLen (nat \<lfloor>x\<rfloor>)) - 1
     else - int (bitLen (nat (\<lceil>1 / x\<rceil> - 1))))"

definition roundHalfEven :: "real \<Rightarrow> int" where
  "roundHalfEven x =
    (if x - of_int \<lfloor>x\<rfloor> < 1 / 2 then \<lfloor>x\<rfloor>
     else if x - of_int \<lfloor>x\<rfloor> > 1 / 2 then \<lfloor>x\<rfloor> + 1
     else if even \<lfloor>x\<rfloor> then \<lfloor>x\<rfloor> else \<lfloor>x\<rfloor> + 1)"

text \<open>
  Rounding to the nearest \<open>float64\<close>, ties to the even significand.  A number with
  exponent \<open>e\<close> is rounded to a multiple of \<open>2 ^ (e - 52)\<close>, so that the significand has
  53 binary digits; below \<open>2 ^ - 1022\<close> (the subnormal numbers) the step stays
  \<open>2 ^ - 1074\<close>; a result of \<open>2 ^ 1024\<close> or more overflows to an infinity.
\<close>

definition roundMagnitude :: "real \<Rightarrow> real option" where
  "roundMagnitude x =
    (let q = pow2 (max (exponent x) (- 1022) - 52);
         r = of_int (roundHalfEven (x / q)) * q
     in if r \<ge> 2 ^ 1024 then None else Some r)"

definition round64 :: "real \<Rightarrow> float64" where
  "round64 x =
    (if 0 \<le> x then (case roundMagnitude x of None \<Rightarrow> PosInf | Some m \<Rightarrow> Finite m)
     else (case roundMagnitude (- x) of None \<Rightarrow> NegInf | Some m \<Rightarrow> Finite (- m)))"


text \<open>
  The \<open>float64\<close> product \<open>a * b\<close>: the exact product, rounded; NaN for a NaN operand
  and for zero times an infinity.
\<close>

fun mul64 :: "float64 \<Rightarrow> float64 \<Rightarrow> float64" where
  "mul64 (Finite x) (Finite y) = round64 (x * y)"
| "mul64 NaN b = NaN"
| "mul64 a NaN = NaN"
| "mul64 (Finite x) PosInf = (if x = 0 then NaN else if 0 < x then PosInf else NegInf)"
| "mul64 (Finite x) NegInf = (if x = 0 then NaN else if 0 < x then NegInf else PosInf)"
| "mul64 PosInf (Finite y) = (if y = 0 then NaN else if 0 < y then PosInf else NegInf)"
| "mul64 NegInf (Finite y) = (if y = 0 then NaN else if 0 < y then NegInf else PosInf)"
| "mul64 PosInf PosInf = PosInf"
| "mul64 PosInf NegInf = NegInf"
| "mul64 NegInf PosInf = NegInf"
| "mul64 NegInf NegInf = PosInf"

text \<open>The comparison \<open>a >= b\<close>: false when an operand is NaN.\<close>

fun ge64 :: "float64 \<Rightarrow> float64 \<Rightarrow> bool" where
  "ge64 NaN b = False"
| "ge64 a NaN = False"
| "ge64 (Finite x) (Finite y) = (y \<le> x)"
| "ge64 PosInf b = True"
| "ge64 a NegInf = True"
| "ge64 (Finite x) PosInf = False"
| "ge64 NegInf b = False"

text \<open>
  The optimizer.  \<open>taskDesc\<close>, \<open>optimizationGoal\<close>, \<open>customMetrics\<close>, \<open>ratingSystem\<close>
  and \<open>threshold\<close> are the fields the functions below read.  The struct itself is
  declared outside the sources; the remaining fields are the run configuration that the
  callers set (\<open>WithIterations\<close>, \<open>WithMemorySize\<close>, \<open>WithMaxRetries\<close>,
  \<open>WithRetryDelay\<close>, the initial prompt) and the history of the run.  The threshold
  is whatever \<open>float64\<close> the caller has set.
\<close>

record PromptOptimizer =
  taskDesc :: string
  optimizationGoal :: string
  customMetrics :: "Metric list"
  ratingSystem :: string
  threshold :: float64
  initialPrompt :: "Prompt option"
  iterations :: nat
  memorySize :: nat
  maxRetries :: nat
  retryDelay :: nat
  history :: "OptimizationEntry list"

text \<open>The anonymous struct that \<open>generateImprovedPrompt\<close> decodes the response into.\<close>

record ExpectedImpact_struct =
  Incremental :: real
  Bold :: real

record improvedPrompts_struct =
  IncrementalImprovement :: Prompt
  BoldRedesign :: Prompt
  ExpectedImpact :: ExpectedImpact_struct

subsection \<open>The outside world\<close>

text \<open>
  The text-generation service is an external collaborator with a state of its own:
  \<open>Generate\<close> takes the service's state and a request and returns generated text or an
  error, and the next state.  The world records every request issued, every line sent
  to the debug sink, and the time waited between attempts.
\<close>

type_synonym 's LLM = "'s \<Rightarrow> Prompt \<Rightarrow> (error + string) \<times> 's"

datatype debug_event = LoggedPrompt string | LoggedResponse string

record 's world =
  service :: 's
  requests :: "Prompt list"
  debugLog :: "debug_event list"
  waited :: nat

definition Generate :: "'s LLM \<Rightarrow> Prompt \<Rightarrow> 's world \<Rightarrow> (error + string) \<times> 's world" where
  "Generate l p w =
    (case l (service w) p of
       (res, s') \<Rightarrow> (res, w\<lparr>service := s', requests := requests w @ [p]\<rparr>))"

definition LogPrompt :: "string \<Rightarrow> 's world \<Rightarrow> 's world" where
  "LogPrompt text w = w\<lparr>debugLog := debugLog w @ [LoggedPrompt text]\<rparr>"

definition LogResponse :: "string \<Rightarrow> 's world \<Rightarrow> 's world" where
  "LogResponse text w = w\<lparr>debugLog := debugLog w @ [LoggedResponse text]\<rparr>"

text \<open>
  What the optimizer's functions call and the sources do not contain is a parameter:
  the service, \<open>cleanJSONResponse\<close>, \<open>json.Unmarshal\<close> into each of the two target
  types, \<open>llm.Validate\<close>, \<open>normalizeGrade\<close>, \<open>recentHistory\<close>, the two
  \<open>fmt.Sprintf\<close> renderings of the request templates (each takes the five arguments
  of its call), and \<open>Prompt.String\<close>.
\<close>

record 's collaborators =
  llm_Generate :: "'s LLM"
  cleanJSONResponse :: "string \<Rightarrow> string"
  unmarshalAssessment :: "string \<Rightarrow> error + PromptAssessment"
  unmarshalImproved :: "string \<Rightarrow> error + improvedPrompts_struct"
  llm_Validate :: "PromptAssessment \<Rightarrow> error option"
  normalizeGrade :: "string \<Rightarrow> real \<Rightarrow> error + string"
  recentHistory :: "PromptOptimizer \<Rightarrow> OptimizationEntry list"
  sprintfAssess ::
    "string \<Rightarrow> Prompt option \<Rightarrow> OptimizationEntry list \<Rightarrow> Metric list \<Rightarrow> string \<Rightarrow> string"
  sprintfImprove ::
    "Prompt option \<Rightarrow> PromptAssessment \<Rightarrow> OptimizationEntry list \<Rightarrow> string \<Rightarrow> string \<Rightarrow> string"
  Prompt_String :: "Prompt \<Rightarrow> string"

section \<open>The optimizer's functions\<close>

subsection \<open>isOptimizationGoalMet\<close>

definition gradeValues :: "(string \<times> real) list" where
  "gradeValues =
    [(''A+'', 4.3), (''A'', 4.0), (''A-'', 3.7),
     (''B+'', 3.3), (''B'', 3.0), (''B-'', 2.7),
     (''C+'', 2.3), (''C'', 2.0), (''C-'', 1.7),
     (''D+'', 1.3), (''D'', 1.0), (''D-'', 0.7),
     (''F'', 0.0)]"

definition isOptimizationGoalMet ::
    "PromptOptimizer \<Rightarrow> PromptAssessment \<Rightarrow> bool \<times> error option" where
  "isOptimizationGoalMet po assessment =
    (if ratingSystem po = '''' then (False, None)
     else if ratingSystem po = ''numerical'' then
       (ge64 (Finite (OverallScore assessment)) (mul64 (Finite 20) (threshold po)), None)
     else if ratingSystem po = ''letter'' then
       (case map_of gradeValues (OverallGrade assessment) of
          None \<Rightarrow> (False, Some (New (''invalid grade: '' @ OverallGrade assessment)))
        | Some gradeValue \<Rightarrow> (gradeValue \<ge> 3.7, None))
     else (False, Some (New (''unknown rating system: '' @ ratingSystem po))))"

subsection \<open>generateImprovedPrompt\<close>

definition improveRequest ::
    "'s collaborators \<Rightarrow> PromptOptimizer \<Rightarrow> OptimizationEntry \<Rightarrow> Prompt" where
  "improveRequest env po prevEntry =
    NewPrompt (sprintfImprove env (Prompt prevEntry) (Assessment prevEntry)
                 (recentHistory env po) (taskDesc po) (optimizationGoal po))"

definition generateImprovedPrompt ::
    "'s collaborators \<Rightarrow> PromptOptimizer \<Rightarrow> OptimizationEntry \<Rightarrow> 's world
      \<Rightarrow> (Prompt option \<times> error option) \<times> 's world" where
  "generateImprovedPrompt env po prevEntry w =
    (let improvePrompt = improveRequest env po prevEntry;
         w1 = LogPrompt (Prompt_String env improvePrompt) w
     in case Generate (llm_Generate env) improvePrompt w1 of
          (Inl err, w2) \<Rightarrow>
            ((None, Some (Wrap ''failed to generate improved prompt'' err)), w2)
        | (Inr response, w2) \<Rightarrow>
            (let w3 = LogResponse response w2;
                 cleanedResponse = cleanJSONResponse env response
             in case unmarshalImproved env cleanedResponse of
                  Inl err \<Rightarrow> ((None, Some (Wrap ''failed to parse improved prompts'' err)), w3)
                | Inr improvedPrompts \<Rightarrow>
                    if Bold (ExpectedImpact improvedPrompts)
                         > Incremental (ExpectedImpact improvedPrompts)
                    then ((Some (BoldRedesign improvedPrompts), None), w3)
                    else ((Some (IncrementalImprovement improvedPrompts), None), w3)))"

subsection \<open>assessPrompt\<close>

definition assessRequest ::
    "'s collaborators \<Rightarrow> PromptOptimizer \<Rightarrow> Prompt option \<Rightarrow> Prompt" where
  "assessRequest env po prompt =
    NewPrompt (sprintfAssess env (taskDesc po) prompt (recentHistory env po)
                 (customMetrics po) (optimizationGoal po))"

definition assessPrompt ::
    "'s collaborators \<Rightarrow> PromptOptimizer \<Rightarrow> Prompt option \<Rightarrow> 's world
      \<Rightarrow> (OptimizationEntry \<times> error option) \<times> 's world" where
  "assessPrompt env po prompt w =
    (let assessPrompt = assessRequest env po prompt
     in case Generate (llm_Generate env) assessPrompt w of
          (Inl err, w1) \<Rightarrow> ((zeroEntry, Some (Wrap ''failed to assess prompt'' err)), w1)
        | (Inr response, w1) \<Rightarrow>
            (let cleanedResponse = cleanJSONResponse env response
             in case unmarshalAssessment env cleanedResponse of
                  Inl err \<Rightarrow>
                    ((zeroEntry, Some (Wrap ''failed to parse assessment response'' err)),
                     LogResponse (''Raw response: '' @ response) w1)
                | Inr assessment \<Rightarrow>
                    (case llm_Validate env assessment of
                       Some err \<Rightarrow>
                         ((zeroEntry, Some (Wrap ''invalid assessment structure'' err)), w1)
                     | None \<Rightarrow>
                         (case normalizeGrade env (OverallGrade assessment)
                                 (OverallScore assessment) of
                            Inl err \<Rightarrow>
                              ((zeroEntry, Some (Wrap ''invalid overall grade'' err)), w1)
                          | Inr grade \<Rightarrow>
                              ((\<lparr>Prompt = prompt,
                                 Assessment = assessment\<lparr>OverallGrade := grade\<rparr>\<rparr>, None),
                               w1)))))"

section \<open>ExtractStructuredData\<close>

subsection \<open>The string functions of Go's standard library\<close>

text \<open>
  \<open>strings.ToLower\<close> and \<open>strings.TrimSpace\<close> work on the runes (Unicode code
  points) that a string holds in UTF-8.  They are modelled on bytes, as the library
  computes them: \<open>utf8.DecodeRuneInString\<close> and \<open>utf8.DecodeLastRuneInString\<close> give a
  rune and its width, and the rune \<open>RuneError\<close> with width 1 for a byte that starts no
  valid encoding; \<open>utf8.EncodeRune\<close> writes a rune back.
\<close>

type_synonym rune = int

definition RuneError :: rune where
  "RuneError = 0xFFFD"

definition byte :: "char \<Rightarrow> nat" where
  "byte c = of_char c"

definition chr :: "int \<Rightarrow> char" where
  "chr n = char_of (nat n)"

definition continuation :: "nat \<Rightarrow> nat \<Rightarrow> char \<Rightarrow> bool" where
  "continuation lo hi c = (lo \<le> byte c \<and> byte c \<le> hi)"

text \<open>The range accepted for the second byte, by the first byte.\<close>

definition acceptRange :: "nat \<Rightarrow> nat \<times> nat" where
  "acceptRange s0 =
    (if s0 = 0xE0 then (0xA0, 0xBF)
     else if s0 = 0xED then (0x80, 0x9F)
     else if s0 = 0xF0 then (0x90, 0xBF)
     else if s0 = 0xF4 then (0x80, 0x8F)
     else (0x80, 0xBF))"

fun DecodeRuneInString :: "string \<Rightarrow> rune \<times> nat" where
  "DecodeRuneInString [] = (RuneError, 0)"
| "DecodeRuneInString (c0 # cs) =
    (let s0 = byte c0; (lo, hi) = acceptRange s0 in
     if s0 < 0x80 then (int s0, 1)
     else if s0 < 0xC2 \<or> 0xF4 < s0 then (RuneError, 1)
     else if s0 < 0xE0 then
       (case cs of
          c1 # _ \<Rightarrow>
            if continuation lo hi c1
            then (int ((s0 mod 0x20) * 0x40 + byte c1 mod 0x40), 2)
            else (RuneError, 1)
        | _ \<Rightarrow> (RuneError, 1))
     else if s0 < 0xF0 then
       (case cs of
          c1 # c2 # _ \<Rightarrow>
            if continuation lo hi c1 \<and> continuation 0x80 0xBF c2
            then (int ((s0 mod 0x10) * 0x1000 + (byte c1 mod 0x40) * 0x40
                       + byte c2 mod 0x40), 3)
            else (RuneError, 1)
        | _ \<Rightarrow> (RuneError, 1))
     else
       (case cs of
          c1 # c2 # c3 # _ \<Rightarrow>
            if continuation lo hi c1 \<and> continuation 0x80 0xBF c2
               \<and> continuation 0x80 0xBF c3
            then (int ((s0 mod 0x08) * 0x40000 + (byte c1 mod 0x40) * 0x1000
                       + (byte c2 mod 0x40) * 0x40 + byte c3 mod 0x40), 4)
            else (RuneError, 1)
        | _ \<Rightarrow> (RuneError, 1)))"

text \<open>
  \<open>DecodeLastRuneInString\<close> walks back from the end, over at most three bytes, to a
  byte that can start a rune, and decodes from there; the rune must end where the
  string ends.
\<close>

definition RuneStart :: "char \<Rightarrow> bool" where
  "RuneStart c = (byte c < 0x80 \<or> 0xC0 \<le> byte c)"

definition lastRuneStart :: "string \<Rightarrow> nat" where
  "lastRuneStart s =
    (let lim = length s - 4 in
     case filter (\<lambda>i. RuneStart (s ! i)) (rev [lim ..< length s - 1]) of
       [] \<Rightarrow> lim - 1
     | start # _ \<Rightarrow> start)"

definition DecodeLastRuneInString :: "string \<Rightarrow> rune \<times> nat" where
  "DecodeLastRuneInString s =
    (if s = [] then (RuneError, 0)
     else if byte (last s) < 0x80 then (int (byte (last s)), 1)
     else
       (let start = lastRuneStart s; (r, size) = DecodeRuneInString (drop start s) in
        if start + size \<noteq> length s then (RuneError, 1) else (r, size)))"

text \<open>A rune that is no code point, or a surrogate, is written as \<open>RuneError\<close>.\<close>

definition EncodeRune :: "rune \<Rightarrow> string" where
  "EncodeRune r0 =
    (let r = (if r0 < 0 \<or> 0x10FFFF < r0 \<or> (0xD800 \<le> r0 \<and> r0 \<le> 0xDFFF)
              then RuneError else r0) in
     if r \<le> 0x7F then [chr r]
     else if r \<le> 0x7FF then [chr (0xC0 + r div 0x40), chr (0x80 + r mod 0x40)]
     else if r \<le> 0xFFFF then
       [chr (0xE0 + r div 0x1000), chr (0x80 + (r div 0x40) mod 0x40),
        chr (0x80 + r mod 0x40)]
     else
       [chr (0xF0 + r div 0x40000), chr (0x80 + (r div 0x1000) mod 0x40),
        chr (0x80 + (r div 0x40) mod 0x40), chr (0x80 + r mod 0x40)])"

text \<open>
  \<open>strings.Map\<close>: every rune of the string is replaced by its image, and dropped when
  the image is negative.
\<close>

fun Map_runes :: "(rune \<Rightarrow> rune) \<Rightarrow> string \<Rightarrow> string" where
  "Map_runes mapping [] = []"
| "Map_runes mapping (c # cs) =
    (let (r, width) = DecodeRuneInString (c # cs) in
     (if mapping r \<ge> 0 then EncodeRune (mapping r) else [])
       @ Map_runes mapping (drop (width - 1) cs))"

text \<open>
  \<open>unicode.ToLower\<close> maps the ASCII letters itself and reads every other rune from
  the Unicode case tables.  The tables are a parameter, \<open>caseTable\<close>: the theorems hold
  whatever they contain.
\<close>

definition unicode_ToLower :: "(rune \<Rightarrow> rune) \<Rightarrow> rune \<Rightarrow> rune" where
  "unicode_ToLower caseTable r =
    (if r \<le> 0x7F then (if 0x41 \<le> r \<and> r \<le> 0x5A then r + 0x20 else r)
     else caseTable r)"

text \<open>\<open>strings.ToLower\<close>, with its fast path for a string of ASCII bytes.\<close>

definition ToLower :: "(rune \<Rightarrow> rune) \<Rightarrow> string \<Rightarrow> string" where
  "ToLower caseTable s =
    (if list_all (\<lambda>c. byte c < 0x80) s
     then map (\<lambda>c. if 0x41 \<le> byte c \<and> byte c \<le> 0x5A then char_of (byte c + 0x20) else c) s
     else Map_runes (unicode_ToLower caseTable) s)"

text \<open>\<open>unicode.IsSpace\<close>: the white space of Latin-1, and of the rest of Unicode.\<close>

definition IsSpace :: "rune \<Rightarrow> bool" where
  "IsSpace r =
    (if 0 \<le> r \<and> r \<le> 0xFF then
       r \<in> {0x09, 0x0A, 0x0B, 0x0C, 0x0D, 0x20, 0x85, 0xA0}
     else
       r = 0x1680 \<or> (0x2000 \<le> r \<and> r \<le> 0x200A) \<or> r = 0x2028 \<or> r = 0x2029
       \<or> r = 0x202F \<or> r = 0x205F \<or> r = 0x3000)"

fun TrimLeftFunc :: "(rune \<Rightarrow> bool) \<Rightarrow> string \<Rightarrow> string" where
  "TrimLeftFunc f [] = []"
| "TrimLeftFunc f (c # cs) =
    (let (r, width) = DecodeRuneInString (c # cs) in
     if f r then TrimLeftFunc f (drop (width - 1) cs) else c # cs)"

function TrimRightFunc :: "(rune \<Rightarrow> bool) \<Rightarrow> string \<Rightarrow> string" where
  "TrimRightFunc f s =
    (if s = [] then []
     else if f (fst (DecodeLastRuneInString s))
       then TrimRightFunc f (take (length s - max 1 (snd (DecodeLastRuneInString s))) s)
     else s)"
  by pat_completeness auto
termination
  by (relation "measure (\<lambda>(f, s). length s)") auto

declare TrimRightFunc.simps [simp del]

text \<open>
  \<open>strings.TrimSpace\<close> removes the white space at both ends.  (Its fast path for ASCII
  gives the same result, \<open>unicode.IsSpace\<close> holding of exactly six ASCII characters.)
\<close>

definition TrimSpace :: "string \<Rightarrow> string" where
  "TrimSpace s = TrimRightFunc IsSpace (TrimLeftFunc IsSpace s)"

subsection \<open>The request texts of ExtractStructuredData\<close>

text \<open>
  The Chinese string literals of the source, as the UTF-8 bytes the Go compiler stores.
  Each constant is glossed in English.
\<close>

text \<open>The answer U+662F (the word for yes), three bytes in UTF-8.\<close>

definition shi :: string where
  "shi =
    [CHR 0xE6, CHR 0x98, CHR 0xAF]"

text \<open>The answer U+5426 (the word for no), three bytes in UTF-8.\<close>

definition fou :: string where
  "fou =
    [CHR 0xE5, CHR 0x90, CHR 0xA6]"

text \<open>The word for or.\<close>

definition zh_or :: string where
  "zh_or =
    [CHR 0xE6, CHR 0x88, CHR 0x96]"

text \<open>Head of the validation request: analyse whether the following text holds enough
  information to extract structured data.\<close>

definition zh_analyse :: string where
  "zh_analyse =
    [CHR 0xE5, CHR 0x88, CHR 0x86, CHR 0xE6, CHR 0x9E, CHR 0x90, CHR 0xE4, CHR 0xBB,
     CHR 0xA5, CHR 0xE4, CHR 0xB8, CHR 0x8B, CHR 0xE6, CHR 0x96, CHR 0x87, CHR 0xE6,
     CHR 0x9C, CHR 0xAC, CHR 0xE6, CHR 0x98, CHR 0xAF, CHR 0xE5, CHR 0x90, CHR 0xA6,
     CHR 0xE5, CHR 0x8C, CHR 0x85, CHR 0xE5, CHR 0x90, CHR 0xAB, CHR 0xE8, CHR 0xB6,
     CHR 0xB3, CHR 0xE5, CHR 0xA4, CHR 0x9F, CHR 0xE7, CHR 0x9A, CHR 0x84, CHR 0xE4,
     CHR 0xBF, CHR 0xA1, CHR 0xE6, CHR 0x81, CHR 0xAF, CHR 0xE6, CHR 0x9D, CHR 0xA5,
     CHR 0xE6, CHR 0x8F, CHR 0x90, CHR 0xE5, CHR 0x8F, CHR 0x96, CHR 0xE7, CHR 0xBB,
     CHR 0x93, CHR 0xE6, CHR 0x9E, CHR 0x84, CHR 0xE5, CHR 0x8C, CHR 0x96, CHR 0xE6,
     CHR 0x95, CHR 0xB0, CHR 0xE6, CHR 0x8D, CHR 0xAE, CHR 0x3A]"

text \<open>If the text holds extractable information, please answer\<close>

definition zh_if_extractable_answer :: string where
  "zh_if_extractable_answer =
    [CHR 0xE5, CHR 0xA6, CHR 0x82, CHR 0xE6, CHR 0x9E, CHR 0x9C, CHR 0xE6, CHR 0x96,
     CHR 0x87, CHR 0xE6, CHR 0x9C, CHR 0xAC, CHR 0xE5, CHR 0x8C, CHR 0x85, CHR 0xE5,
     CHR 0x90, CHR 0xAB, CHR 0xE5, CHR 0x8F, CHR 0xAF, CHR 0xE6, CHR 0x8F, CHR 0x90,
     CHR 0xE5, CHR 0x8F, CHR 0x96, CHR 0xE7, CHR 0x9A, CHR 0x84, CHR 0xE4, CHR 0xBF,
     CHR 0xA1, CHR 0xE6, CHR 0x81, CHR 0xAF, CHR 0xEF, CHR 0xBC, CHR 0x8C, CHR 0xE8,
     CHR 0xAF, CHR 0xB7, CHR 0xE5, CHR 0x9B, CHR 0x9E, CHR 0xE7, CHR 0xAD, CHR 0x94]"

text \<open>, if not, please answer\<close>

definition zh_if_not_answer :: string where
  "zh_if_not_answer =
    [CHR 0xEF, CHR 0xBC, CHR 0x8C, CHR 0xE5, CHR 0xA6, CHR 0x82, CHR 0xE6, CHR 0x9E,
     CHR 0x9C, CHR 0xE4, CHR 0xB8, CHR 0x8D, CHR 0xE6, CHR 0x98, CHR 0xAF, CHR 0xEF,
     CHR 0xBC, CHR 0x8C, CHR 0xE8, CHR 0xAF, CHR 0xB7, CHR 0xE5, CHR 0x9B, CHR 0x9E,
     CHR 0xE7, CHR 0xAD, CHR 0x94]"

text \<open>Answer only\<close>

definition zh_only_answer :: string where
  "zh_only_answer =
    [CHR 0xE4, CHR 0xBB, CHR 0x85, CHR 0xE5, CHR 0x9B, CHR 0x9E, CHR 0xE7, CHR 0xAD,
     CHR 0x94]"

text \<open>If the text holds enough information to fill most required fields, please answer\<close>

definition zh_if_enough_answer :: string where
  "zh_if_enough_answer =
    [CHR 0xE5, CHR 0xA6, CHR 0x82, CHR 0xE6, CHR 0x9E, CHR 0x9C, CHR 0xE6, CHR 0x96,
     CHR 0x87, CHR 0xE6, CHR 0x9C, CHR 0xAC, CHR 0xE5, CHR 0x8C, CHR 0x85, CHR 0xE5,
     CHR 0x90, CHR 0xAB, CHR 0xE8, CHR 0xB6, CHR 0xB3, CHR 0xE5, CHR 0xA4, CHR 0x9F,
     CHR 0xE7, CHR 0x9A, CHR 0x84, CHR 0xE4, CHR 0xBF, CHR 0xA1, CHR 0xE6, CHR 0x81,
     CHR 0xAF, CHR 0xE6, CHR 0x9D, CHR 0xA5, CHR 0xE5, CHR 0xA1, CHR 0xAB, CHR 0xE5,
     CHR 0x85, CHR 0x85, CHR 0xE5, CHR 0xA4, CHR 0xA7, CHR 0xE5, CHR 0xA4, CHR 0x9A,
     CHR 0xE6, CHR 0x95, CHR 0xB0, CHR 0xE5, CHR 0xBF, CHR 0x85, CHR 0xE5, CHR 0xA1,
     CHR 0xAB, CHR 0xE5, CHR 0xAD, CHR 0x97, CHR 0xE6, CHR 0xAE, CHR 0xB5, CHR 0xEF,
     CHR 0xBC, CHR 0x8C, CHR 0xE8, CHR 0xAF, CHR 0xB7, CHR 0xE5, CHR 0x9B, CHR 0x9E,
     CHR 0xE7, CHR 0xAD, CHR 0x94]"

text \<open>If the text is unrelated or lacks the necessary information, please answer\<close>

definition zh_if_irrelevant_answer :: string where
  "zh_if_irrelevant_answer =
    [CHR 0xE5, CHR 0xA6, CHR 0x82, CHR 0xE6, CHR 0x9E, CHR 0x9C, CHR 0xE6, CHR 0x96,
     CHR 0x87, CHR 0xE6, CHR 0x9C, CHR 0xAC, CHR 0xE4, CHR 0xB8, CHR 0x8D, CHR 0xE7,
     CHR 0x9B, CHR 0xB8, CHR 0xE5, CHR 0x85, CHR 0xB3, CHR 0xE6, CHR 0x88, CHR 0x96,
     CHR 0xE7, CHR 0xBC, CHR 0xBA, CHR 0xE5, CHR 0xB0, CHR 0x91, CHR 0xE5, CHR 0xBF,
     CHR 0x85, CHR 0xE8, CHR 0xA6, CHR 0x81, CHR 0xE4, CHR 0xBF, CHR 0xA1, CHR 0xE6,
     CHR 0x81, CHR 0xAF, CHR 0xEF, CHR 0xBC, CHR 0x8C, CHR 0xE8, CHR 0xAF, CHR 0xB7,
     CHR 0xE5, CHR 0x9B, CHR 0x9E, CHR 0xE7, CHR 0xAD, CHR 0x94]"

text \<open>One-character answer:\<close>

definition zh_one_word_answer :: string where
  "zh_one_word_answer =
    [CHR 0xE5, CHR 0x8D, CHR 0x95, CHR 0xE5, CHR 0xAD, CHR 0x97, CHR 0xE5, CHR 0x9B,
     CHR 0x9E, CHR 0xE7, CHR 0xAD, CHR 0x94, CHR 0xEF, CHR 0xBC, CHR 0x9A]"

text \<open>Head of the extraction request: extract the following information from the given text.\<close>

definition zh_extract_from :: string where
  "zh_extract_from =
    [CHR 0xE4, CHR 0xBB, CHR 0x8E, CHR 0xE7, CHR 0xBB, CHR 0x99, CHR 0xE5, CHR 0xAE,
     CHR 0x9A, CHR 0xE7, CHR 0x9A, CHR 0x84, CHR 0xE6, CHR 0x96, CHR 0x87, CHR 0xE6,
     CHR 0x9C, CHR 0xAC, CHR 0xE4, CHR 0xB8, CHR 0xAD, CHR 0xE6, CHR 0x8F, CHR 0x90,
     CHR 0xE5, CHR 0x8F, CHR 0x96, CHR 0xE4, CHR 0xBB, CHR 0xA5, CHR 0xE4, CHR 0xB8,
     CHR 0x8B, CHR 0xE4, CHR 0xBF, CHR 0xA1, CHR 0xE6, CHR 0x81, CHR 0xAF, CHR 0x3A]"

text \<open>Please respond with a JSON object matching this schema (in the source the line
  starts with a stray letter n).\<close>

definition zh_respond_with_json :: string where
  "zh_respond_with_json =
    [CHR 0x6E, CHR 0xE8, CHR 0xAF, CHR 0xB7, CHR 0xE4, CHR 0xBD, CHR 0xBF, CHR 0xE7,
     CHR 0x94, CHR 0xA8, CHR 0xE4, CHR 0xB8, CHR 0x8E, CHR 0xE6, CHR 0xAD, CHR 0xA4,
     CHR 0xE6, CHR 0xA8, CHR 0xA1, CHR 0xE5, CHR 0xBC, CHR 0x8F, CHR 0xE5, CHR 0x8C,
     CHR 0xB9, CHR 0xE9, CHR 0x85, CHR 0x8D, CHR 0xE7, CHR 0x9A, CHR 0x84, CHR 0x20,
     CHR 0x4A, CHR 0x53, CHR 0x4F, CHR 0x4E, CHR 0x20, CHR 0xE5, CHR 0xAF, CHR 0xB9,
     CHR 0xE8, CHR 0xB1, CHR 0xA1, CHR 0xE8, CHR 0xBF, CHR 0x9B, CHR 0xE8, CHR 0xA1,
     CHR 0x8C, CHR 0xE5, CHR 0x93, CHR 0x8D, CHR 0xE5, CHR 0xBA, CHR 0x94, CHR 0x3A]"

text \<open>Extract all relevant information from the text\<close>

definition zh_extract_all :: string where
  "zh_extract_all =
    [CHR 0xE4, CHR 0xBB, CHR 0x8E, CHR 0xE6, CHR 0x96, CHR 0x87, CHR 0xE6, CHR 0x9C,
     CHR 0xAC, CHR 0xE4, CHR 0xB8, CHR 0xAD, CHR 0xE6, CHR 0x8F, CHR 0x90, CHR 0xE5,
     CHR 0x8F, CHR 0x96, CHR 0xE6, CHR 0x89, CHR 0x80, CHR 0xE6, CHR 0x9C, CHR 0x89,
     CHR 0xE7, CHR 0x9B, CHR 0xB8, CHR 0xE5, CHR 0x85, CHR 0xB3, CHR 0xE4, CHR 0xBF,
     CHR 0xA1, CHR 0xE6, CHR 0x81, CHR 0xAF]"

text \<open>Make sure the output matches the provided JSON schema exactly\<close>

definition zh_match_schema :: string where
  "zh_match_schema =
    [CHR 0xE7, CHR 0xA1, CHR 0xAE, CHR 0xE4, CHR 0xBF, CHR 0x9D, CHR 0xE8, CHR 0xBE,
     CHR 0x93, CHR 0xE5, CHR 0x87, CHR 0xBA, CHR 0xE4, CHR 0xB8, CHR 0x8E, CHR 0xE6,
     CHR 0x8F, CHR 0x90, CHR 0xE4, CHR 0xBE, CHR 0x9B, CHR 0xE7, CHR 0x9A, CHR 0x84,
     CHR 0x20, CHR 0x4A, CHR 0x53, CHR 0x4F, CHR 0x4E, CHR 0x20, CHR 0xE6, CHR 0xA8,
     CHR 0xA1, CHR 0xE5, CHR 0xBC, CHR 0x8F, CHR 0xE5, CHR 0xAE, CHR 0x8C, CHR 0xE5,
     CHR 0x85, CHR 0xA8, CHR 0xE5, CHR 0x8C, CHR 0xB9, CHR 0xE9, CHR 0x85, CHR 0x8D]"

text \<open>If a field cannot be filled with confidence, leave it null or an empty string or array\<close>

definition zh_leave_null :: string where
  "zh_leave_null =
    [CHR 0xE5, CHR 0xA6, CHR 0x82, CHR 0xE6, CHR 0x9E, CHR 0x9C, CHR 0xE6, CHR 0x97,
     CHR 0xA0, CHR 0xE6, CHR 0xB3, CHR 0x95, CHR 0xE8, CHR 0x87, CHR 0xAA, CHR 0xE4,
     CHR 0xBF, CHR 0xA1, CHR 0xE5, CHR 0x9C, CHR 0xB0, CHR 0xE5, CHR 0xA1, CHR 0xAB,
     CHR 0xE5, CHR 0x85, CHR 0x85, CHR 0xE6, CHR 0x9F, CHR 0x90, CHR 0xE4, CHR 0xB8,
     CHR 0xAA, CHR 0xE5, CHR 0xAD, CHR 0x97, CHR 0xE6, CHR 0xAE, CHR 0xB5, CHR 0xEF,
     CHR 0xBC, CHR 0x8C, CHR 0xE8, CHR 0xAF, CHR 0xB7, CHR 0xE5, CHR 0xB0, CHR 0x86,
     CHR 0xE5, CHR 0x85, CHR 0xB6, CHR 0xE4, CHR 0xBF, CHR 0x9D, CHR 0xE7, CHR 0x95,
     CHR 0x99, CHR 0xE4, CHR 0xB8, CHR 0xBA, CHR 0x20, CHR 0x6E, CHR 0x75, CHR 0x6C,
     CHR 0x6C, CHR 0x20, CHR 0xE6, CHR 0x88, CHR 0x96, CHR 0xE9, CHR 0x80, CHR 0x82,
     CHR 0xE5, CHR 0xBD, CHR 0x93, CHR 0xE7, CHR 0x9A, CHR 0x84, CHR 0xE7, CHR 0xA9,
     CHR 0xBA, CHR 0xE5, CHR 0xAD, CHR 0x97, CHR 0xE7, CHR 0xAC, CHR 0xA6, CHR 0xE4,
     CHR 0xB8, CHR 0xB2, CHR 0x2F, CHR 0xE6, CHR 0x95, CHR 0xB0, CHR 0xE7, CHR 0xBB,
     CHR 0x84]"

text \<open>A JSON object matching the provided schema\<close>

definition zh_json_object_output :: string where
  "zh_json_object_output =
    [CHR 0xE4, CHR 0xB8, CHR 0x8E, CHR 0xE6, CHR 0x8F, CHR 0x90, CHR 0xE4, CHR 0xBE,
     CHR 0x9B, CHR 0xE7, CHR 0x9A, CHR 0x84, CHR 0xE6, CHR 0xA8, CHR 0xA1, CHR 0xE5,
     CHR 0xBC, CHR 0x8F, CHR 0xE5, CHR 0x8C, CHR 0xB9, CHR 0xE9, CHR 0x85, CHR 0x8D,
     CHR 0xE7, CHR 0x9A, CHR 0x84, CHR 0x20, CHR 0x4A, CHR 0x53, CHR 0x4F, CHR 0x4E,
     CHR 0x20, CHR 0xE5, CHR 0xAF, CHR 0xB9, CHR 0xE8, CHR 0xB1, CHR 0xA1]"
subsection \<open>The function\<close>

definition quoted :: "string \<Rightarrow> string" where
  "quoted s = [CHR 0x27] @ s @ [CHR 0x27]"

definition newline :: string where
  "newline = [CHR 0x0A]"

text \<open>The two \<open>fmt.Sprintf\<close> calls, whose arguments are strings (\<open>%s\<close>).\<close>

definition validationText :: "string \<Rightarrow> string" where
  "validationText text =
    zh_analyse @ newline @ newline @ text @ newline @ newline
      @ zh_if_extractable_answer @ quoted shi @ zh_if_not_answer @ quoted fou"

definition promptText :: "string \<Rightarrow> string \<Rightarrow> string" where
  "promptText text schema =
    zh_extract_from @ newline @ newline @ text @ newline @ newline
      @ zh_respond_with_json @ newline @ schema"

definition validationPrompt :: "string \<Rightarrow> Prompt" where
  "validationPrompt text =
    Apply
      [WithDirectives
         [zh_only_answer @ quoted shi @ zh_or @ quoted fou,
          zh_if_enough_answer @ quoted shi,
          zh_if_irrelevant_answer @ quoted fou],
       WithOutput (zh_one_word_answer @ quoted shi @ zh_or @ quoted fou)]
      (NewPrompt (validationText text))"

definition extractionPrompt :: "(Prompt \<Rightarrow> Prompt) list \<Rightarrow> string \<Rightarrow> string \<Rightarrow> Prompt" where
  "extractionPrompt opts text schema =
    Apply
      (opts @
       [WithDirectives [zh_extract_all, zh_match_schema, zh_leave_null],
        WithOutput zh_json_object_output])
      (NewPrompt (promptText text schema))"

text \<open>
  What the function calls for the target type \<open>T\<close> (here \<open>'t\<close>) is a parameter:
  \<open>gollm.GenerateJSONSchema\<close> of the zero value, \<open>json.Unmarshal\<close> into \<open>T\<close> and
  \<open>gollm.Validate\<close>; so are the Unicode case tables.
\<close>

record 't extraction =
  GenerateJSONSchema :: "error + string"
  json_Unmarshal :: "string \<Rightarrow> error + 't"
  gollm_Validate :: "'t \<Rightarrow> error option"
  caseTable :: "rune \<Rightarrow> rune"

text \<open>
  \<open>ctx\<close> and \<open>l\<close> are interface values, \<open>None\<close> when nil; \<open>opts\<close> are the caller's
  prompt options.
\<close>

definition ExtractStructuredData ::
    "'t extraction \<Rightarrow> 'c option \<Rightarrow> 's LLM option \<Rightarrow> string \<Rightarrow> (Prompt \<Rightarrow> Prompt) list
      \<Rightarrow> 's world \<Rightarrow> ('t option \<times> error option) \<times> 's world" where
  "ExtractStructuredData T ctx l text opts w =
    (if ctx = None then ((None, Some (New ''context cannot be nil'')), w)
     else case l of
       None \<Rightarrow> ((None, Some (New ''LLM instance cannot be nil'')), w)
     | Some generate \<Rightarrow>
       if TrimSpace text = '''' then ((None, Some (New ''text cannot be empty'')), w)
       else case GenerateJSONSchema T of
         Inl err \<Rightarrow> ((None, Some (Wrap ''failed to generate JSON schema'' err)), w)
       | Inr schema \<Rightarrow>
         (case Generate generate (validationPrompt text) w of
            (Inl err, w1) \<Rightarrow>
              ((None, Some (Wrap ''failed to validate text content'' err)), w1)
          | (Inr validationResponse, w1) \<Rightarrow>
              if TrimSpace (ToLower (caseTable T) validationResponse) \<noteq> ''yes'' then
                ((None, Some (New ''text does not contain enough extractable information'')),
                 w1)
              else
                (case Generate generate (extractionPrompt opts text schema) w1 of
                   (Inl err, w2) \<Rightarrow>
                     ((None, Some (Wrap ''failed to generate structured data'' err)), w2)
                 | (Inr response, w2) \<Rightarrow>
                     (case json_Unmarshal T response of
                        Inl err \<Rightarrow> ((None, Some (Wrap ''failed to parse response'' err)), w2)
                      | Inr result \<Rightarrow>
                          (case gollm_Validate T result of
                             Some err \<Rightarrow> ((None, Some (Wrap ''validation failed'' err)), w2)
                           | None \<Rightarrow> ((Some result, None), w2))))))"

section \<open>Parts of the optimizer that the sources call and do not contain\<close>

subsection \<open>Structural validation of an assessment\<close>

definition inScale :: "real \<Rightarrow> bool" where
  "inScale x = (0 \<le> x \<and> x \<le> 20)"

fun metricValue :: "Metric \<Rightarrow> real" where
  "metricValue (Metric name v reasoning) = v"

fun expectedImpact :: "Suggestion \<Rightarrow> real" where
  "expectedImpact (Suggestion description v reasoning) = v"

text \<open>
  Modelled from the spec: \<open>llm.Validate\<close> applied to a \<open>PromptAssessment\<close>; the
  validator and the struct's validation tags are not in the sources.  The spec's
  structural validation is the rule that each of the four lists is non-empty, and the
  score ranges: metric values, expected impacts and the scores lie in [0,20].
\<close>

definition Validate_spec :: "PromptAssessment \<Rightarrow> error option" where
  "Validate_spec a =
    (if Metrics a = [] then Some (New ''metrics: at least one item is required'')
     else if Strengths a = [] then Some (New ''strengths: at least one item is required'')
     else if Weaknesses a = [] then Some (New ''weaknesses: at least one item is required'')
     else if Suggestions a = [] then Some (New ''suggestions: at least one item is required'')
     else if \<not> (list_all (\<lambda>m. inScale (metricValue m)) (Metrics a)
               \<and> list_all (\<lambda>s. inScale (expectedImpact s)) (Suggestions a)
               \<and> inScale (OverallScore a) \<and> inScale (EfficiencyScore a)
               \<and> inScale (AlignmentWithGoal a))
       then Some (New ''score out of range [0,20]'')
     else None)"

subsection \<open>Grade normalization\<close>

text \<open>The letter scale, lowest grade first, and the place of a token on it.\<close>

definition letterScale :: "string list" where
  "letterScale = [''F'', ''D'', ''C'', ''B'', ''A'', ''A+'']"

fun place :: "string \<Rightarrow> string list \<Rightarrow> nat" where
  "place g [] = 0"
| "place g (x # xs) = (if g = x then 0 else Suc (place g xs))"

definition letterRank :: "string \<Rightarrow> nat" where
  "letterRank g = place g letterScale"

text \<open>
  Modelled from the spec: the numeric-to-letter policy of \<open>normalizeGrade\<close>, which is
  not in the sources.  The spec names the boundaries 19 (A+), 17 (A) and 2 (below it F) and
  leaves the others to the implementation; the boundaries of B and C are the parameters
  \<open>cutB\<close> and \<open>cutC\<close>.
\<close>

definition letterForScore :: "real \<Rightarrow> real \<Rightarrow> real \<Rightarrow> string" where
  "letterForScore cutB cutC v =
    (if v \<ge> 19 then ''A+''
     else if v \<ge> 17 then ''A''
     else if v \<ge> cutB then ''B''
     else if v \<ge> cutC then ''C''
     else if v \<ge> 2 then ''D''
     else ''F'')"

text \<open>
  Modelled from the spec: \<open>normalizeGrade\<close>, called by \<open>assessPrompt\<close> with the grade
  and the score and not in the sources.  A grade in letter form is left as it is when it
  is valid; a grade in numeric form is mapped onto the letter scale; a grade of neither
  form is rejected.  How a numeric token is read (\<open>parseFloat\<close>) is a parameter.
\<close>

definition normalizeGrade_spec ::
    "(string \<Rightarrow> real option) \<Rightarrow> real \<Rightarrow> real \<Rightarrow> string \<Rightarrow> real \<Rightarrow> error + string" where
  "normalizeGrade_spec parseFloat cutB cutC grade score =
    (if grade \<in> set letterScale then Inr grade
     else case parseFloat grade of
       Some v \<Rightarrow> Inr (letterForScore cutB cutC v)
     | None \<Rightarrow> Inl (New (''invalid grade: '' @ grade)))"

subsection \<open>The history buffer\<close>

text \<open>
  Modelled from the spec: the History Buffer, whose code is not in the sources.
  Recording appends the entry and then drops entries from the front while the capacity
  is exceeded; the recent history is the buffer, oldest entry first.
\<close>

definition recordEntry :: "OptimizationEntry \<Rightarrow> PromptOptimizer \<Rightarrow> PromptOptimizer" where
  "recordEntry entry po =
    (let h = history po @ [entry] in po\<lparr>history := drop (length h - memorySize po) h\<rparr>)"

definition recent :: "PromptOptimizer \<Rightarrow> OptimizationEntry list" where
  "recent po = history po"

subsection \<open>The optimization controller\<close>

text \<open>
  Modelled from the spec: the bounded retry around the two engines, not in the sources.
  After a failed attempt the controller waits the fixed delay and tries again, for at
  most \<open>maxRetries\<close> retries after the first attempt; when they are used up the run
  fails with the last error.  The spec disagrees with itself on whether a malformed
  response is retried, so which errors are retried is the parameter \<open>retryable\<close>.  The
  result counts the attempts made.
\<close>

definition wait :: "nat \<Rightarrow> 's world \<Rightarrow> 's world" where
  "wait delay w = w\<lparr>waited := waited w + delay\<rparr>"

fun withRetry ::
    "(error \<Rightarrow> bool) \<Rightarrow> nat \<Rightarrow> nat \<Rightarrow> ('s world \<Rightarrow> ('a \<times> error option) \<times> 's world)
      \<Rightarrow> 's world \<Rightarrow> ((error + 'a) \<times> nat) \<times> 's world" where
  "withRetry retryable delay 0 engine w =
    (case engine w of
       ((x, None), w') \<Rightarrow> ((Inr x, 1), w')
     | ((x, Some e), w') \<Rightarrow> ((Inl e, 1), w'))"
| "withRetry retryable delay (Suc n) engine w =
    (case engine w of
       ((x, None), w') \<Rightarrow> ((Inr x, 1), w')
     | ((x, Some e), w') \<Rightarrow>
         if retryable e then
           (case withRetry retryable delay n engine (wait delay w') of
              ((res, k), w'') \<Rightarrow> ((res, Suc k), w''))
         else ((Inl e, 1), w'))"

text \<open>
  Modelled from the spec: which prompt a successful run returns.  It is the prompt of
  the best entry, read here as the entry with the highest overall score (the earliest
  of them).  For a run stopped by the iteration cap the spec says the best-seen prompt
  in one place and the final one in another; both rules are modelled, and the choice is
  a parameter of the run.
\<close>

datatype capRule = BestSeen | Final

fun best :: "OptimizationEntry list \<Rightarrow> OptimizationEntry" where
  "best [] = zeroEntry"
| "best [e] = e"
| "best (e # es) =
    (let b = best es in
     if OverallScore (Assessment b) > OverallScore (Assessment e) then b else e)"

definition capChoice :: "capRule \<Rightarrow> OptimizationEntry list \<Rightarrow> OptimizationEntry" where
  "capChoice rule entries =
    (case rule of
       BestSeen \<Rightarrow> best entries
     | Final \<Rightarrow> (if entries = [] then zeroEntry else last entries))"

text \<open>
  Modelled from the spec: the controller's state machine (\<open>OptimizePrompt\<close>), not in
  the sources.  A round is Scoring, then Deciding, then Improving unless the run stops.
  Scoring assesses the current prompt under the retry and records the entry.  Deciding
  stops with success when the goal is met, and also when the maximum iteration count is
  reached.  Improving asks for a replacement prompt under the retry; it becomes the
  current prompt of the next round.  A run fails with the state it failed in, the
  attempts made and the cause; the spec does not say what happens when the goal cannot
  be evaluated, and here the run fails in Deciding.  An iteration is a round, and a run
  allowed zero iterations still performs one: \<open>rounds\<close> counts the rounds allowed after
  the present one.  The result lists the states the run went through and the entries it
  scored.
\<close>

datatype phase = Scoring | Deciding | Improving

datatype outcome = Done "Prompt option" | Failed phase nat error

record 's run =
  outcome :: outcome
  phases :: "phase list"
  scored :: "OptimizationEntry list"
  optimizer :: PromptOptimizer
  endWorld :: "'s world"

fun rounds ::
    "'s collaborators \<Rightarrow> (error \<Rightarrow> bool) \<Rightarrow> capRule \<Rightarrow> nat \<Rightarrow> PromptOptimizer
      \<Rightarrow> OptimizationEntry list \<Rightarrow> Prompt option \<Rightarrow> 's world \<Rightarrow> 's run" where
  "rounds env retryable rule n po seen current w =
    (case withRetry retryable (retryDelay po) (maxRetries po) (assessPrompt env po current) w of
       ((Inl e, k), w1) \<Rightarrow>
         \<lparr>outcome = Failed Scoring k e, phases = [Scoring], scored = seen,
          optimizer = po, endWorld = w1\<rparr>
     | ((Inr entry, k), w1) \<Rightarrow>
         (let po1 = recordEntry entry po; seen1 = seen @ [entry] in
          case isOptimizationGoalMet po1 (Assessment entry) of
            (met, Some e) \<Rightarrow>
              \<lparr>outcome = Failed Deciding 1 e, phases = [Scoring, Deciding], scored = seen1,
               optimizer = po1, endWorld = w1\<rparr>
          | (met, None) \<Rightarrow>
              if met then
                \<lparr>outcome = Done (Prompt (best seen1)), phases = [Scoring, Deciding],
                 scored = seen1, optimizer = po1, endWorld = w1\<rparr>
              else
                (case n of
                   0 \<Rightarrow>
                     \<lparr>outcome = Done (Prompt (capChoice rule seen1)),
                      phases = [Scoring, Deciding], scored = seen1,
                      optimizer = po1, endWorld = w1\<rparr>
                 | Suc m \<Rightarrow>
                     (case withRetry retryable (retryDelay po1) (maxRetries po1)
                             (generateImprovedPrompt env po1 entry) w1 of
                        ((Inl e, k), w2) \<Rightarrow>
                          \<lparr>outcome = Failed Improving k e,
                           phases = [Scoring, Deciding, Improving], scored = seen1,
                           optimizer = po1, endWorld = w2\<rparr>
                      | ((Inr improved, k), w2) \<Rightarrow>
                          (let r = rounds env retryable rule m po1 seen1 improved w2 in
                           r\<lparr>phases := [Scoring, Deciding, Improving] @ phases r\<rparr>)))))"

definition OptimizePrompt ::
    "'s collaborators \<Rightarrow> (error \<Rightarrow> bool) \<Rightarrow> capRule \<Rightarrow> PromptOptimizer \<Rightarrow> 's world \<Rightarrow> 's run" where
  "OptimizePrompt env retryable rule po w =
    rounds env retryable rule (iterations po - 1) po [] (initialPrompt po) w"

section \<open>Concrete inputs\<close>

text \<open>
  A configuration, an assessment, prompts and a scripted service, at which the theorems
  below are instantiated.  The threshold of the configuration is the \<open>float64\<close> nearest
  to the given decimal, as for a literal of the source.  The service answers from a list
  of prepared results; the decoders know a few response texts.
\<close>

definition prompt_example :: "string \<Rightarrow> Prompt" where
  "prompt_example text = \<lparr>Input = text, Directives = [''d''], Output = ''o'', Examples = []\<rparr>"

definition po_example :: "string \<Rightarrow> real \<Rightarrow> PromptOptimizer" where
  "po_example rs th =
    \<lparr>taskDesc = ''task'', optimizationGoal = ''goal'', customMetrics = [],
     ratingSystem = rs, threshold = round64 th,
     initialPrompt = Some (prompt_example ''initial''), iterations = 0, memorySize = 2,
     maxRetries = 1, retryDelay = 2, history = []\<rparr>"

definition assessment_example :: "real \<Rightarrow> string \<Rightarrow> PromptAssessment" where
  "assessment_example score grade =
    \<lparr>Metrics = [Metric ''m'' 1 ''r''], Strengths = [Strength ''p'' ''e''],
     Weaknesses = [Weakness ''p'' ''e''], Suggestions = [Suggestion ''d'' 1 ''r''],
     OverallScore = score, OverallGrade = grade,
     EfficiencyScore = 10, AlignmentWithGoal = 10\<rparr>"

definition entry_example :: OptimizationEntry where
  "entry_example =
    \<lparr>Prompt = Some (prompt_example ''previous''), Assessment = assessment_example 3 ''F''\<rparr>"

definition improved_example :: "real \<Rightarrow> real \<Rightarrow> improvedPrompts_struct" where
  "improved_example inc bold =
    \<lparr>IncrementalImprovement = prompt_example ''incremental'',
     BoldRedesign = prompt_example ''bold'',
     ExpectedImpact = \<lparr>Incremental = inc, Bold = bold\<rparr>\<rparr>"

definition scripted :: "(error + string) list LLM" where
  "scripted s p = (case s of [] \<Rightarrow> (Inl (New ''no response''), []) | r # rs \<Rightarrow> (r, rs))"

definition env_example :: "(error + string) list collaborators" where
  "env_example =
    \<lparr>llm_Generate = scripted,
     cleanJSONResponse = (\<lambda>s. s),
     unmarshalAssessment = (\<lambda>s.
        if s = ''ok'' then Inr (assessment_example 18 ''A'')
        else if s = ''numeric grade'' then Inr (assessment_example 18 ''18'')
        else if s = ''bad grade'' then Inr (assessment_example 18 ''excellent'')
        else if s = ''no strengths'' then
          Inr ((assessment_example 18 ''A'')\<lparr>Strengths := []\<rparr>)
        else Inl (New ''invalid character'')),
     unmarshalImproved = (\<lambda>s.
        if s = ''tie'' then Inr (improved_example 15 15)
        else if s = ''bold'' then Inr (improved_example 15 18)
        else if s = ''incremental'' then Inr (improved_example 18 15)
        else Inl (New ''invalid character'')),
     llm_Validate = (\<lambda>a.
        if Strengths a = [] then Some (New ''strengths: required'') else None),
     normalizeGrade = (\<lambda>grade score.
        if grade = ''A'' then Inr grade else Inl (New (''invalid grade format: '' @ grade))),
     recentHistory = history,
     sprintfAssess = (\<lambda>task prompt history metrics goal. task @ goal),
     sprintfImprove = (\<lambda>prompt assessment history task goal. task @ goal),
     Prompt_String = Input\<rparr>"

text \<open>The same collaborators with the validation and the normalization of the spec.\<close>

definition parse_example :: "string \<Rightarrow> real option" where
  "parse_example g =
    (if g = ''18'' then Some 18 else if g = ''12.5'' then Some 12.5 else None)"

definition env_spec_example :: "(error + string) list collaborators" where
  "env_spec_example =
    env_example\<lparr>llm_Validate := Validate_spec,
                 normalizeGrade := normalizeGrade_spec parse_example 11 5,
                 recentHistory := recent\<rparr>"

definition world_example :: "(error + string) list \<Rightarrow> (error + string) list world" where
  "world_example responses =
    \<lparr>service = responses, requests = [], debugLog = [], waited = 0\<rparr>"

definition extraction_example :: "string extraction" where
  "extraction_example =
    \<lparr>GenerateJSONSchema = Inr ''{}'',
     json_Unmarshal = (\<lambda>s. Inr s),
     gollm_Validate = (\<lambda>t. None),
     caseTable = (\<lambda>r. r)\<rparr>"

section \<open>Lemmas\<close>

subsection \<open>The service and the two engines\<close>

lemma Generate_result:
  assumes "l (service w) p = (res, s')"
  shows "Generate l p w = (res, w\<lparr>service := s', requests := requests w @ [p]\<rparr>)"
  using assms by (simp add: Generate_def)

lemma service_LogPrompt: "service (LogPrompt text w) = service w"
  by (simp add: LogPrompt_def)

lemma generateImprovedPrompt_generation_failure:
  assumes "llm_Generate env (service w) (improveRequest env po prevEntry) = (Inl err, s')"
  shows "fst (generateImprovedPrompt env po prevEntry w)
      = (None, Some (Wrap ''failed to generate improved prompt'' err))"
proof -
  let ?w1 = "LogPrompt (Prompt_String env (improveRequest env po prevEntry)) w"
  have "llm_Generate env (service ?w1) (improveRequest env po prevEntry) = (Inl err, s')"
    using assms by (simp add: service_LogPrompt)
  from Generate_result [where l = "llm_Generate env", OF this] show ?thesis
    by (simp add: generateImprovedPrompt_def Let_def)
qed

lemma generateImprovedPrompt_generated:
  assumes "llm_Generate env (service w) (improveRequest env po prevEntry) = (Inr response, s')"
  shows "fst (generateImprovedPrompt env po prevEntry w)
      = (case unmarshalImproved env (cleanJSONResponse env response) of
           Inl err \<Rightarrow> (None, Some (Wrap ''failed to parse improved prompts'' err))
         | Inr ip \<Rightarrow>
             (Some (if Bold (ExpectedImpact ip) > Incremental (ExpectedImpact ip)
                    then BoldRedesign ip else IncrementalImprovement ip), None))"
proof -
  let ?w1 = "LogPrompt (Prompt_String env (improveRequest env po prevEntry)) w"
  have "llm_Generate env (service ?w1) (improveRequest env po prevEntry) = (Inr response, s')"
    using assms by (simp add: service_LogPrompt)
  from Generate_result [where l = "llm_Generate env", OF this] show ?thesis
    by (simp add: generateImprovedPrompt_def Let_def split: sum.splits)
qed

lemma generateImprovedPrompt_error_nil:
  assumes e: "snd (fst (generateImprovedPrompt env po prevEntry w)) \<noteq> None"
  shows "fst (fst (generateImprovedPrompt env po prevEntry w)) = None"
proof -
  obtain res s' where g: "llm_Generate env (service w) (improveRequest env po prevEntry) = (res, s')"
    by (cases "llm_Generate env (service w) (improveRequest env po prevEntry)")
  show ?thesis
  proof (cases res)
    case (Inl err)
    then show ?thesis
      using generateImprovedPrompt_generation_failure [of env w po prevEntry err s'] g by simp
  next
    case (Inr response)
    then show ?thesis
      using generateImprovedPrompt_generated [of env w po prevEntry response s'] g e
      by (simp split: sum.splits)
  qed
qed

lemma generateImprovedPrompt_error_wraps:
  assumes e: "snd (fst (generateImprovedPrompt env po prevEntry w)) = Some e"
  shows "Unwrap e \<noteq> None"
proof -
  obtain res s' where g: "llm_Generate env (service w) (improveRequest env po prevEntry) = (res, s')"
    by (cases "llm_Generate env (service w) (improveRequest env po prevEntry)")
  show ?thesis
  proof (cases res)
    case (Inl err)
    then show ?thesis
      using generateImprovedPrompt_generation_failure [of env w po prevEntry err s'] g e by auto
  next
    case (Inr response)
    then show ?thesis
      using generateImprovedPrompt_generated [of env w po prevEntry response s'] g e
      by (auto split: sum.splits)
  qed
qed

lemma assessPrompt_generation_failure:
  assumes "llm_Generate env (service w) (assessRequest env po prompt) = (Inl err, s')"
  shows "fst (assessPrompt env po prompt w) = (zeroEntry, Some (Wrap ''failed to assess prompt'' err))"
  using Generate_result [where l = "llm_Generate env", OF assms] by (simp add: assessPrompt_def Let_def)

lemma assessPrompt_generated:
  assumes "llm_Generate env (service w) (assessRequest env po prompt) = (Inr response, s')"
  shows "fst (assessPrompt env po prompt w)
      = (case unmarshalAssessment env (cleanJSONResponse env response) of
           Inl err \<Rightarrow> (zeroEntry, Some (Wrap ''failed to parse assessment response'' err))
         | Inr a \<Rightarrow>
             (case llm_Validate env a of
                Some err \<Rightarrow> (zeroEntry, Some (Wrap ''invalid assessment structure'' err))
              | None \<Rightarrow>
                  (case normalizeGrade env (OverallGrade a) (OverallScore a) of
                     Inl err \<Rightarrow> (zeroEntry, Some (Wrap ''invalid overall grade'' err))
                   | Inr grade \<Rightarrow>
                       (\<lparr>Prompt = prompt, Assessment = a\<lparr>OverallGrade := grade\<rparr>\<rparr>, None))))"
  using Generate_result [where l = "llm_Generate env", OF assms]
  by (simp add: assessPrompt_def Let_def split: sum.splits option.splits)

text \<open>The four ways \<open>assessPrompt\<close> ends, for the result of the generation call.\<close>

lemma assessPrompt_cases:
  obtains (generation) err where
      "fst (assessPrompt env po prompt w) = (zeroEntry, Some (Wrap ''failed to assess prompt'' err))"
  | (decode) err where
      "fst (assessPrompt env po prompt w)
         = (zeroEntry, Some (Wrap ''failed to parse assessment response'' err))"
  | (validation) a err where "llm_Validate env a = Some err"
      "fst (assessPrompt env po prompt w)
         = (zeroEntry, Some (Wrap ''invalid assessment structure'' err))"
  | (grade) err where
      "fst (assessPrompt env po prompt w) = (zeroEntry, Some (Wrap ''invalid overall grade'' err))"
  | (success) a grade where "llm_Validate env a = None"
      "normalizeGrade env (OverallGrade a) (OverallScore a) = Inr grade"
      "fst (assessPrompt env po prompt w)
         = (\<lparr>Prompt = prompt, Assessment = a\<lparr>OverallGrade := grade\<rparr>\<rparr>, None)"
proof -
  obtain res s' where g: "llm_Generate env (service w) (assessRequest env po prompt) = (res, s')"
    by (cases "llm_Generate env (service w) (assessRequest env po prompt)")
  show thesis
  proof (cases res)
    case (Inl err)
    then show thesis
      using assessPrompt_generation_failure [of env w po prompt err s'] g generation by simp
  next
    case (Inr response)
    note r = assessPrompt_generated [of env w po prompt response s']
    show thesis
    proof (cases "unmarshalAssessment env (cleanJSONResponse env response)")
      case (Inl err)
      then show thesis using r g Inr decode by simp
    next
      case a: (Inr a)
      show thesis
      proof (cases "llm_Validate env a")
        case (Some err)
        then show thesis using r g Inr a validation by simp
      next
        case None
        show thesis
        proof (cases "normalizeGrade env (OverallGrade a) (OverallScore a)")
          case (Inl err)
          then show thesis using r g Inr a None grade by simp
        next
          case (Inr gr)
          then show thesis using r g \<open>res = Inr response\<close> a None success by simp
        qed
      qed
    qed
  qed
qed

lemma assessPrompt_error_zero:
  assumes "snd (fst (assessPrompt env po prompt w)) \<noteq> None"
  shows "fst (fst (assessPrompt env po prompt w)) = zeroEntry"
  using assms by (cases rule: assessPrompt_cases [of env po prompt w]) simp_all

lemma assessPrompt_error_wraps:
  assumes "snd (fst (assessPrompt env po prompt w)) = Some e"
  shows "Unwrap e \<noteq> None"
  using assms by (cases rule: assessPrompt_cases [of env po prompt w]) auto

lemma assessPrompt_success_prompt:
  assumes "snd (fst (assessPrompt env po prompt w)) = None"
  shows "Prompt (fst (fst (assessPrompt env po prompt w))) = prompt"
  using assms by (cases rule: assessPrompt_cases [of env po prompt w]) simp_all

lemma assessPrompt_requests:
  "requests (snd (assessPrompt env po prompt w)) = requests w @ [assessRequest env po prompt]"
  by (simp add: assessPrompt_def Generate_def Let_def LogResponse_def
      split: prod.splits sum.splits option.splits)

subsection \<open>Trimming returns a part of the string\<close>

lemma set_TrimLeftFunc: "set (TrimLeftFunc f s) \<subseteq> set s"
proof (induction f s rule: TrimLeftFunc.induct)
  case (1 f)
  show ?case by simp
next
  case (2 f c cs)
  obtain r width where d: "DecodeRuneInString (c # cs) = (r, width)"
    by (cases "DecodeRuneInString (c # cs)")
  show ?case
  proof (cases "f r")
    case True
    have "set (TrimLeftFunc f (drop (width - 1) cs)) \<subseteq> set (drop (width - 1) cs)"
      using 2 [OF d [symmetric] refl True] .
    also have "\<dots> \<subseteq> set (c # cs)"
      using set_drop_subset [of "width - 1" cs] by auto
    finally show ?thesis
      using d True by (simp del: DecodeRuneInString.simps)
  next
    case False
    then show ?thesis
      using d by (simp del: DecodeRuneInString.simps)
  qed
qed

lemma length_TrimLeftFunc: "length (TrimLeftFunc f s) \<le> length s"
proof (induction f s rule: TrimLeftFunc.induct)
  case (1 f)
  show ?case by simp
next
  case (2 f c cs)
  obtain r width where d: "DecodeRuneInString (c # cs) = (r, width)"
    by (cases "DecodeRuneInString (c # cs)")
  show ?case
  proof (cases "f r")
    case True
    have "length (TrimLeftFunc f (drop (width - 1) cs)) \<le> length (drop (width - 1) cs)"
      using 2 [OF d [symmetric] refl True] .
    then show ?thesis
      using d True by (simp del: DecodeRuneInString.simps)
  next
    case False
    then show ?thesis
      using d by (simp del: DecodeRuneInString.simps)
  qed
qed

lemma set_TrimRightFunc: "set (TrimRightFunc f s) \<subseteq> set s"
proof (induction f s rule: TrimRightFunc.induct)
  case (1 f s)
  show ?case
  proof (cases "s = []")
    case True
    then show ?thesis by (simp add: TrimRightFunc.simps)
  next
    case ne: False
    let ?n = "length s - max 1 (snd (DecodeLastRuneInString s))"
    show ?thesis
    proof (cases "f (fst (DecodeLastRuneInString s))")
      case True
      have "set (TrimRightFunc f (take ?n s)) \<subseteq> set (take ?n s)"
        using 1 [OF ne True] .
      also have "\<dots> \<subseteq> set s"
        by (rule set_take_subset)
      finally show ?thesis
        using True ne by (subst TrimRightFunc.simps) simp
    next
      case False
      then show ?thesis
        using ne by (subst TrimRightFunc.simps) simp
    qed
  qed
qed

lemma length_TrimRightFunc: "length (TrimRightFunc f s) \<le> length s"
proof (induction f s rule: TrimRightFunc.induct)
  case (1 f s)
  show ?case
  proof (cases "s = []")
    case True
    then show ?thesis by (simp add: TrimRightFunc.simps)
  next
    case ne: False
    let ?n = "length s - max 1 (snd (DecodeLastRuneInString s))"
    show ?thesis
    proof (cases "f (fst (DecodeLastRuneInString s))")
      case True
      have "length (TrimRightFunc f (take ?n s)) \<le> length (take ?n s)"
        using 1 [OF ne True] .
      then show ?thesis
        using True ne by (subst TrimRightFunc.simps) simp
    next
      case False
      then show ?thesis
        using ne by (subst TrimRightFunc.simps) simp
    qed
  qed
qed

lemma set_TrimSpace: "set (TrimSpace s) \<subseteq> set s"
  unfolding TrimSpace_def
  using set_TrimRightFunc [of IsSpace "TrimLeftFunc IsSpace s"] set_TrimLeftFunc [of IsSpace s]
  by blast

lemma length_TrimSpace: "length (TrimSpace s) \<le> length s"
  unfolding TrimSpace_def
  using length_TrimRightFunc [of IsSpace "TrimLeftFunc IsSpace s"]
    length_TrimLeftFunc [of IsSpace s]
  by linarith

lemma TrimSpace_Nil: "TrimSpace [] = []"
  by (simp add: TrimSpace_def TrimRightFunc.simps)

subsection \<open>One encoded rune is never the text yes\<close>

lemma byte_chr: "0 \<le> n \<Longrightarrow> n < 256 \<Longrightarrow> byte (chr n) = nat n"
  by (simp add: byte_def chr_def)

text \<open>An encoded rune is one byte, or bytes that are all outside ASCII.\<close>

lemma EncodeRune_shape:
  "length (EncodeRune r) = 1 \<or> (\<forall>c \<in> set (EncodeRune r). 0x80 \<le> byte c)"
proof -
  define q where
    "q = (if r < 0 \<or> 0x10FFFF < r \<or> (0xD800 \<le> r \<and> r \<le> 0xDFFF) then RuneError else r)"
  have q: "0 \<le> q" "q \<le> 0x10FFFF"
    by (auto simp: q_def RuneError_def)
  have e: "EncodeRune r =
     (if q \<le> 0x7F then [chr q]
     else if q \<le> 0x7FF then [chr (0xC0 + q div 0x40), chr (0x80 + q mod 0x40)]
     else if q \<le> 0xFFFF then
       [chr (0xE0 + q div 0x1000), chr (0x80 + (q div 0x40) mod 0x40), chr (0x80 + q mod 0x40)]
     else
       [chr (0xF0 + q div 0x40000), chr (0x80 + (q div 0x1000) mod 0x40),
        chr (0x80 + (q div 0x40) mod 0x40), chr (0x80 + q mod 0x40)])"
    by (simp add: EncodeRune_def q_def Let_def)
  have cont: "0x80 \<le> byte (chr (0x80 + x mod 0x40))" for x :: int
  proof -
    have "0 \<le> x mod 0x40" "x mod 0x40 < 0x40" by simp_all
    then show ?thesis by (subst byte_chr) linarith+
  qed
  have lead: "0x80 \<le> byte (chr (b + x))" if "0x80 \<le> b" "0 \<le> x" "b + x < 256" for b x :: int
    using that by (subst byte_chr) linarith+
  consider "q \<le> 0x7F" | "0x7F < q" "q \<le> 0x7FF" | "0x7FF < q" "q \<le> 0xFFFF" | "0xFFFF < q"
    by linarith
  then show ?thesis
  proof cases
    case 1
    then show ?thesis by (simp add: e)
  next
    case 2
    then have "0 \<le> q div 0x40" "q div 0x40 < 0x20" by linarith+
    then have "0x80 \<le> byte (chr (0xC0 + q div 0x40))" by (intro lead) linarith+
    then show ?thesis using 2 cont by (simp add: e)
  next
    case 3
    then have "0 \<le> q div 0x1000" "q div 0x1000 < 0x10" by linarith+
    then have "0x80 \<le> byte (chr (0xE0 + q div 0x1000))" by (intro lead) linarith+
    then show ?thesis using 3 cont by (simp add: e)
  next
    case 4
    then have "0 \<le> q div 0x40000" "q div 0x40000 < 0x8" using q by linarith+
    then have "0x80 \<le> byte (chr (0xF0 + q div 0x40000))" by (intro lead) linarith+
    then show ?thesis using 4 cont by (simp add: e)
  qed
qed

lemma TrimSpace_EncodeRune_not_yes: "TrimSpace (EncodeRune r) \<noteq> ''yes''"
proof
  assume y: "TrimSpace (EncodeRune r) = ''yes''"
  from EncodeRune_shape [of r] show False
  proof
    assume "length (EncodeRune r) = 1"
    then show False using length_TrimSpace [of "EncodeRune r"] y by simp
  next
    assume h: "\<forall>c \<in> set (EncodeRune r). 0x80 \<le> byte c"
    have "CHR ''y'' \<in> set (TrimSpace (EncodeRune r))" using y by simp
    then have "CHR ''y'' \<in> set (EncodeRune r)" using set_TrimSpace by blast
    then have "0x80 \<le> byte CHR ''y''" using h by blast
    then show False by (simp add: byte_def)
  qed
qed

text \<open>Each of the two answers is one rune; lowering it gives one rune, or nothing.\<close>

lemma ToLower_shi:
  "ToLower tbl shi = (if 0 \<le> tbl 0x662F then EncodeRune (tbl 0x662F) else [])"
  by (simp add: ToLower_def shi_def byte_def acceptRange_def continuation_def
      unicode_ToLower_def)

lemma ToLower_fou:
  "ToLower tbl fou = (if 0 \<le> tbl 0x5426 then EncodeRune (tbl 0x5426) else [])"
  by (simp add: ToLower_def fou_def byte_def acceptRange_def continuation_def
      unicode_ToLower_def)

lemma shi_not_yes: "TrimSpace (ToLower tbl shi) \<noteq> ''yes''"
  by (simp add: ToLower_shi TrimSpace_Nil TrimSpace_EncodeRune_not_yes)

lemma fou_not_yes: "TrimSpace (ToLower tbl fou) \<noteq> ''yes''"
  by (simp add: ToLower_fou TrimSpace_Nil TrimSpace_EncodeRune_not_yes)

lemma TrimSpace_example: "TrimSpace ''John is 32'' \<noteq> ''''"
  by code_simp

lemma yes_example: "TrimSpace (ToLower (\<lambda>r. r) '' Yes '') = ''yes''"
  by code_simp

subsection \<open>ExtractStructuredData up to the check of the first answer\<close>

lemma ExtractStructuredData_rejected:
  assumes "ctx \<noteq> None" and "TrimSpace text \<noteq> ''''"
    and "GenerateJSONSchema T = Inr schema"
    and "generate (service w) (validationPrompt text) = (Inr validationResponse, s')"
    and "TrimSpace (ToLower (caseTable T) validationResponse) \<noteq> ''yes''"
  shows "ExtractStructuredData T ctx (Some generate) text opts w
      = ((None, Some (New ''text does not contain enough extractable information'')),
         w\<lparr>service := s', requests := requests w @ [validationPrompt text]\<rparr>)"
  using assms(1,2,3,5) Generate_result [where l = generate, OF assms(4)]
  by (simp add: ExtractStructuredData_def)

text \<open>The answer \<open>Yes\<close>, in any case and with space around it, does reach the extraction.\<close>

lemma ExtractStructuredData_accepts_yes:
  "ExtractStructuredData extraction_example (Some ()) (Some scripted) ''John is 32'' []
      \<lparr>service = [Inr '' Yes '', Inr ''John''], requests = [], debugLog = [], waited = 0\<rparr>
     = ((Some ''John'', None),
        \<lparr>service = [],
         requests = [validationPrompt ''John is 32'', extractionPrompt [] ''John is 32'' ''{}''],
         debugLog = [], waited = 0\<rparr>)"
  using TrimSpace_example yes_example
  by (simp add: ExtractStructuredData_def extraction_example_def Generate_def scripted_def)

subsection \<open>The retry and a run with no round left\<close>

lemma withRetry_first_success:
  assumes "engine w = ((x, None), w')"
  shows "withRetry retryable delay n engine w = ((Inr x, 1), w')"
  using assms by (cases n) simp_all

text \<open>A value that the retry returns was returned, without an error, by the engine.\<close>

lemma withRetry_success_from_engine:
  assumes engine: "\<And>w0 x' w1. engine w0 = ((x', None), w1) \<Longrightarrow> P x'"
    and "withRetry retryable delay n engine w = ((Inr x, k), w')"
  shows "P x"
  using assms(2)
proof (induction n arbitrary: w k w')
  case 0
  then show ?case
    using engine [of w] by (auto split: prod.splits option.splits)
next
  case (Suc n)
  obtain y oe w1 where e: "engine w = ((y, oe), w1)"
    by (metis prod.exhaust)
  show ?case
  proof (cases oe)
    case None
    then show ?thesis using Suc.prems e engine [of w y w1] by simp
  next
    case (Some err)
    show ?thesis
    proof (cases "retryable err")
      case True
      obtain res k' w2 where r: "withRetry retryable delay n engine (wait delay w1) = ((res, k'), w2)"
        by (metis prod.exhaust)
      with Suc.prems e Some True have "res = Inr x" by simp
      with r Suc.IH show ?thesis by blast
    next
      case False
      then show ?thesis using Suc.prems e Some by simp
    qed
  qed
qed

text \<open>Every attempt issues a request, so the retry issues at least one.\<close>

lemma withRetry_requests:
  assumes engine: "\<And>w0. length (requests w0) < length (requests (snd (engine w0)))"
  shows "length (requests w) < length (requests (snd (withRetry retryable delay n engine w)))"
proof (induction n arbitrary: w)
  case 0
  show ?case
    using engine [of w] by (auto split: prod.splits option.splits)
next
  case (Suc n)
  obtain y oe w1 where e: "engine w = ((y, oe), w1)"
    by (metis prod.exhaust)
  have w1: "length (requests w) < length (requests w1)"
    using engine [of w] e by simp
  show ?case
  proof (cases oe)
    case None
    then show ?thesis using e w1 by simp
  next
    case (Some err)
    show ?thesis
    proof (cases "retryable err")
      case True
      have "length (requests (wait delay w1))
          < length (requests (snd (withRetry retryable delay n engine (wait delay w1))))"
        by (rule Suc.IH)
      then have "length (requests w)
          < length (requests (snd (withRetry retryable delay n engine (wait delay w1))))"
        using w1 by (simp add: wait_def)
      then show ?thesis using e Some True by (auto split: prod.splits)
    next
      case False
      then show ?thesis using e Some w1 by simp
    qed
  qed
qed

lemma capChoice_single: "capChoice rule [entry] = entry"
  by (cases rule) (simp_all add: capChoice_def)

text \<open>The last round allowed: it ends in Scoring or in Deciding.\<close>

lemma rounds_zero:
  "rounds env retryable rule 0 po seen current w =
    (case withRetry retryable (retryDelay po) (maxRetries po) (assessPrompt env po current) w of
       ((Inl e, k), w1) \<Rightarrow>
         \<lparr>outcome = Failed Scoring k e, phases = [Scoring], scored = seen,
          optimizer = po, endWorld = w1\<rparr>
     | ((Inr entry, k), w1) \<Rightarrow>
         (case isOptimizationGoalMet (recordEntry entry po) (Assessment entry) of
            (met, Some e) \<Rightarrow>
              \<lparr>outcome = Failed Deciding 1 e, phases = [Scoring, Deciding],
               scored = seen @ [entry], optimizer = recordEntry entry po, endWorld = w1\<rparr>
          | (met, None) \<Rightarrow>
              \<lparr>outcome = Done (Prompt (if met then best (seen @ [entry])
                                      else capChoice rule (seen @ [entry]))),
               phases = [Scoring, Deciding], scored = seen @ [entry],
               optimizer = recordEntry entry po, endWorld = w1\<rparr>))"
  by (subst rounds.simps) (simp add: Let_def split: prod.splits sum.splits option.splits)

text \<open>
  With no rating system the goal test never stops a run: a run that succeeds has gone
  through every round it was allowed and returns the prompt chosen at the cap.
\<close>

lemma recordEntry_ratingSystem: "ratingSystem (recordEntry entry po) = ratingSystem po"
  by (simp add: recordEntry_def Let_def)

lemma rounds_no_rating_system:
  assumes "ratingSystem po = ''''"
  shows "(\<forall>p. outcome (rounds env retryable rule n po seen current w) = Done p
          \<longrightarrow> count_list (phases (rounds env retryable rule n po seen current w)) Scoring = Suc n
            \<and> p = Prompt (capChoice rule (scored (rounds env retryable rule n po seen current w))))
    \<and> (\<forall>k e. outcome (rounds env retryable rule n po seen current w) \<noteq> Failed Deciding k e)"
  using assms
proof (induction n arbitrary: po seen current w)
  case 0
  obtain res k w1 where
    retry: "withRetry retryable (retryDelay po) (maxRetries po) (assessPrompt env po current) w
      = ((res, k), w1)"
    by (metis prod.exhaust)
  show ?case
  proof (cases res)
    case (Inl e)
    then show ?thesis
      using retry by (simp add: rounds_zero del: rounds.simps)
  next
    case (Inr entry)
    have "isOptimizationGoalMet (recordEntry entry po) (Assessment entry) = (False, None)"
      using "0.prems" by (simp add: isOptimizationGoalMet_def recordEntry_ratingSystem)
    then show ?thesis
      using retry Inr by (simp add: rounds_zero del: rounds.simps)
  qed
next
  case (Suc n)
  obtain res k w1 where
    retry: "withRetry retryable (retryDelay po) (maxRetries po) (assessPrompt env po current) w
      = ((res, k), w1)"
    by (metis prod.exhaust)
  show ?case
  proof (cases res)
    case (Inl e)
    then show ?thesis
      using retry by (subst (1 2 3 4) rounds.simps) (simp del: rounds.simps)
  next
    case (Inr entry)
    let ?po1 = "recordEntry entry po"
    have goal: "isOptimizationGoalMet ?po1 (Assessment entry) = (False, None)"
      using Suc.prems by (simp add: isOptimizationGoalMet_def recordEntry_ratingSystem)
    have po1: "ratingSystem ?po1 = ''''"
      using Suc.prems by (simp add: recordEntry_ratingSystem)
    obtain res2 k2 w2 where
      improve: "withRetry retryable (retryDelay ?po1) (maxRetries ?po1)
          (generateImprovedPrompt env ?po1 entry) w1 = ((res2, k2), w2)"
      by (metis prod.exhaust)
    show ?thesis
    proof (cases res2)
      case (Inl e)
      then show ?thesis
        using retry Inr goal improve
        by (subst (1 2 3 4) rounds.simps) (simp add: Let_def del: rounds.simps)
    next
      case improved: (Inr improved)
      let ?r = "rounds env retryable rule n ?po1 (seen @ [entry]) improved w2"
      have unfold: "rounds env retryable rule (Suc n) po seen current w
          = ?r\<lparr>phases := [Scoring, Deciding, Improving] @ phases ?r\<rparr>"
        using retry Inr goal improve improved
        by (subst rounds.simps) (simp add: Let_def del: rounds.simps)
      show ?thesis
        using Suc.IH [OF po1, of "seen @ [entry]" improved w2]
        by (simp add: unfold del: rounds.simps)
    qed
  qed
qed

subsection \<open>Rounding at the values used below\<close>

lemmas round64_eval =
  round64_def roundMagnitude_def roundHalfEven_def exponent_def pow2_def bitLen.simps Let_def



lemma product_threshold_095: "mul64 (Finite 20) (round64 0.95) = Finite 19"
proof -
  have "round64 0.95 = Finite (4278419646001971 / 2 ^ 52)"
    by (simp add: round64_eval)
  then show ?thesis
    by simp (simp add: round64_eval)
qed

lemma product_threshold_075: "mul64 (Finite 20) (round64 0.75) = Finite 15"
proof -
  have "round64 0.75 = Finite 0.75"
    by (simp add: round64_eval)
  then show ?thesis
    by simp (simp add: round64_eval)
qed


text \<open>
  Decimals are rounded before the function sees them: the \<open>float64\<close> nearest to 18.4
  lies one step below the rounded product of 20 and the \<open>float64\<close> nearest to 0.92.
\<close>

lemma round64_score_184: "round64 18.4 = Finite (2589569785738035 / 2 ^ 47)"
  by (simp add: round64_eval)

lemma product_threshold_092:
  "mul64 (Finite 20) (round64 0.92) = Finite (5179139571476071 / 2 ^ 48)"
proof -
  have "round64 0.92 = Finite (8286623314361713 / 2 ^ 53)"
    by (simp add: round64_eval)
  then show ?thesis
    by simp (simp add: round64_eval)
qed

text \<open>
  So a score written 18.4 does not meet a threshold written 0.92, although the decimals
  satisfy \<open>18.4 = 20 * 0.92\<close>: the values the function receives do not.
\<close>

lemma goal_not_met_at_rounded_decimals:
  "isOptimizationGoalMet (po_example ''numerical'' 0.92)
     (assessment_example (2589569785738035 / 2 ^ 47) ''A'') = (False, None)"
  using product_threshold_092
  by (simp add: isOptimizationGoalMet_def po_example_def assessment_example_def)

subsection \<open>The structural validation\<close>

lemma Validate_spec_empty:
  assumes "Metrics a = [] \<or> Strengths a = [] \<or> Weaknesses a = [] \<or> Suggestions a = []"
  shows "Validate_spec a \<noteq> None"
proof (cases "Metrics a = []")
  case True
  then show ?thesis by (simp add: Validate_spec_def)
next
  case m: False
  show ?thesis
  proof (cases "Strengths a = []")
    case True
    then show ?thesis using m by (simp add: Validate_spec_def)
  next
    case s: False
    show ?thesis
    proof (cases "Weaknesses a = []")
      case True
      then show ?thesis using m s by (simp add: Validate_spec_def)
    next
      case False
      then have "Suggestions a = []" using assms m s by simp
      then show ?thesis using m s False by (simp add: Validate_spec_def)
    qed
  qed
qed

section \<open>The claims\<close>



text \<open>
  C2.  When the improvement response is generated and decoded, \<open>generateImprovedPrompt\<close>
  returns the bold redesign exactly when its predicted impact is strictly greater than
  the incremental one; when the two are equal, and when the incremental one is greater,
  it returns the incremental improvement.
\<close>

theorem C2_selection:
  assumes gen: "llm_Generate env (service w) (improveRequest env po prevEntry) = (Inr response, s')"
    and dec: "unmarshalImproved env (cleanJSONResponse env response) = Inr ip"
  shows "fst (generateImprovedPrompt env po prevEntry w)
      = (Some (if Bold (ExpectedImpact ip) > Incremental (ExpectedImpact ip)
               then BoldRedesign ip else IncrementalImprovement ip), None)
    \<and> (Bold (ExpectedImpact ip) = Incremental (ExpectedImpact ip)
         \<longrightarrow> fst (generateImprovedPrompt env po prevEntry w)
               = (Some (IncrementalImprovement ip), None))
    \<and> (Bold (ExpectedImpact ip) < Incremental (ExpectedImpact ip)
         \<longrightarrow> fst (generateImprovedPrompt env po prevEntry w)
               = (Some (IncrementalImprovement ip), None))
    \<and> (Bold (ExpectedImpact ip) > Incremental (ExpectedImpact ip)
         \<longrightarrow> fst (generateImprovedPrompt env po prevEntry w)
               = (Some (BoldRedesign ip), None))"
  using generateImprovedPrompt_generated [OF gen] dec by simp

theorem C2_selection_witness:
  "fst (generateImprovedPrompt env_example (po_example ''numerical'' 0.9) entry_example
          (world_example [Inr ''tie'']))
     = (Some (prompt_example ''incremental''), None)
   \<and> fst (generateImprovedPrompt env_example (po_example ''numerical'' 0.9) entry_example
          (world_example [Inr ''bold'']))
     = (Some (prompt_example ''bold''), None)
   \<and> fst (generateImprovedPrompt env_example (po_example ''numerical'' 0.9) entry_example
          (world_example [Inr ''incremental'']))
     = (Some (prompt_example ''incremental''), None)"
  using C2_selection [of env_example "world_example [Inr ''tie'']"
      "po_example ''numerical'' 0.9" entry_example "''tie''" "[]" "improved_example 15 15"]
    C2_selection [of env_example "world_example [Inr ''bold'']"
      "po_example ''numerical'' 0.9" entry_example "''bold''" "[]" "improved_example 15 18"]
    C2_selection [of env_example "world_example [Inr ''incremental'']"
      "po_example ''numerical'' 0.9" entry_example "''incremental''" "[]" "improved_example 18 15"]
  by (simp add: env_example_def world_example_def improved_example_def scripted_def)

text \<open>
  C3.  In letter rating mode \<open>isOptimizationGoalMet\<close> returns true for the grades
  A+, A and A-, false for B+, B, B-, C+, C, C-, D+, D, D- and F, and an error
  (\<open>invalid grade\<close>) for every grade string outside this table of thirteen grades.
\<close>

theorem C3_letter_goal:
  assumes "ratingSystem po = ''letter''"
  shows "(OverallGrade a \<in> {''A+'', ''A'', ''A-''}
            \<longrightarrow> isOptimizationGoalMet po a = (True, None))
    \<and> (OverallGrade a \<in> {''B+'', ''B'', ''B-'', ''C+'', ''C'', ''C-'',
                            ''D+'', ''D'', ''D-'', ''F''}
            \<longrightarrow> isOptimizationGoalMet po a = (False, None))
    \<and> (OverallGrade a \<notin> {''A+'', ''A'', ''A-'', ''B+'', ''B'', ''B-'', ''C+'', ''C'', ''C-'',
                            ''D+'', ''D'', ''D-'', ''F''}
            \<longrightarrow> isOptimizationGoalMet po a
                  = (False, Some (New (''invalid grade: '' @ OverallGrade a))))"
proof (intro conjI impI)
  assume "OverallGrade a \<in> {''A+'', ''A'', ''A-''}"
  then show "isOptimizationGoalMet po a = (True, None)"
    using assms by (auto simp: isOptimizationGoalMet_def gradeValues_def)
next
  assume "OverallGrade a \<in> {''B+'', ''B'', ''B-'', ''C+'', ''C'', ''C-'',
                            ''D+'', ''D'', ''D-'', ''F''}"
  then show "isOptimizationGoalMet po a = (False, None)"
    using assms by (auto simp: isOptimizationGoalMet_def gradeValues_def)
next
  assume "OverallGrade a \<notin> {''A+'', ''A'', ''A-'', ''B+'', ''B'', ''B-'', ''C+'', ''C'', ''C-'',
                            ''D+'', ''D'', ''D-'', ''F''}"
  then have "map_of gradeValues (OverallGrade a) = None"
    by (simp add: gradeValues_def)
  then show "isOptimizationGoalMet po a
      = (False, Some (New (''invalid grade: '' @ OverallGrade a)))"
    using assms by (simp add: isOptimizationGoalMet_def)
qed

theorem C3_letter_goal_witness:
  "isOptimizationGoalMet (po_example ''letter'' 0.9) (assessment_example 18 ''A-'') = (True, None)
   \<and> isOptimizationGoalMet (po_example ''letter'' 0.9) (assessment_example 18 ''B+'') = (False, None)
   \<and> isOptimizationGoalMet (po_example ''letter'' 0.9) (assessment_example 18 ''E'')
       = (False, Some (New ''invalid grade: E''))"
  using C3_letter_goal [of "po_example ''letter'' 0.9" "assessment_example 18 ''A-''"]
    C3_letter_goal [of "po_example ''letter'' 0.9" "assessment_example 18 ''B+''"]
    C3_letter_goal [of "po_example ''letter'' 0.9" "assessment_example 18 ''E''"]
  by (simp add: po_example_def assessment_example_def)

text \<open>
  C4.  With the structural validation of the spec as \<open>llm.Validate\<close>: a decoded
  assessment in which one of the four sequences (metrics, strengths, weaknesses,
  suggestions) is empty is rejected by \<open>assessPrompt\<close> with the validation error,
  whatever its other fields are; and an entry that \<open>assessPrompt\<close> returns without an
  error has four non-empty sequences.
\<close>

theorem C4_empty_sequence_rejected:
  assumes v: "llm_Validate env = Validate_spec"
  shows "(\<forall>response s' a.
            llm_Generate env (service w) (assessRequest env po prompt) = (Inr response, s')
            \<and> unmarshalAssessment env (cleanJSONResponse env response) = Inr a
            \<and> (Metrics a = [] \<or> Strengths a = [] \<or> Weaknesses a = [] \<or> Suggestions a = [])
          \<longrightarrow> (\<exists>err. Validate_spec a = Some err
                \<and> fst (assessPrompt env po prompt w)
                    = (zeroEntry, Some (Wrap ''invalid assessment structure'' err))))
    \<and> (snd (fst (assessPrompt env po prompt w)) = None
          \<longrightarrow> Metrics (Assessment (fst (fst (assessPrompt env po prompt w)))) \<noteq> []
            \<and> Strengths (Assessment (fst (fst (assessPrompt env po prompt w)))) \<noteq> []
            \<and> Weaknesses (Assessment (fst (fst (assessPrompt env po prompt w)))) \<noteq> []
            \<and> Suggestions (Assessment (fst (fst (assessPrompt env po prompt w)))) \<noteq> [])"
proof (intro conjI allI impI)
  fix response s' a
  assume h: "llm_Generate env (service w) (assessRequest env po prompt) = (Inr response, s')
      \<and> unmarshalAssessment env (cleanJSONResponse env response) = Inr a
      \<and> (Metrics a = [] \<or> Strengths a = [] \<or> Weaknesses a = [] \<or> Suggestions a = [])"
  then have "Validate_spec a \<noteq> None"
    by (rule_tac Validate_spec_empty) simp
  then obtain err where e: "Validate_spec a = Some err"
    by (cases "Validate_spec a") simp_all
  have "fst (assessPrompt env po prompt w)
      = (zeroEntry, Some (Wrap ''invalid assessment structure'' err))"
    using assessPrompt_generated [of env w po prompt response s'] h e v by simp
  with e show "\<exists>err. Validate_spec a = Some err
      \<and> fst (assessPrompt env po prompt w)
          = (zeroEntry, Some (Wrap ''invalid assessment structure'' err))"
    by blast
next
  assume ok: "snd (fst (assessPrompt env po prompt w)) = None"
  have "Metrics (Assessment (fst (fst (assessPrompt env po prompt w)))) \<noteq> []
      \<and> Strengths (Assessment (fst (fst (assessPrompt env po prompt w)))) \<noteq> []
      \<and> Weaknesses (Assessment (fst (fst (assessPrompt env po prompt w)))) \<noteq> []
      \<and> Suggestions (Assessment (fst (fst (assessPrompt env po prompt w)))) \<noteq> []"
  proof (cases rule: assessPrompt_cases [of env po prompt w])
    case (success a grade)
    from success(1) v have "Validate_spec a = None" by simp
    then have "Metrics a \<noteq> [] \<and> Strengths a \<noteq> [] \<and> Weaknesses a \<noteq> [] \<and> Suggestions a \<noteq> []"
      using Validate_spec_empty [of a] by blast
    then show ?thesis using success(3) by simp
  qed (use ok in simp_all)
  then show "Metrics (Assessment (fst (fst (assessPrompt env po prompt w)))) \<noteq> []"
    and "Strengths (Assessment (fst (fst (assessPrompt env po prompt w)))) \<noteq> []"
    and "Weaknesses (Assessment (fst (fst (assessPrompt env po prompt w)))) \<noteq> []"
    and "Suggestions (Assessment (fst (fst (assessPrompt env po prompt w)))) \<noteq> []"
    by simp_all
qed

theorem C4_empty_sequence_rejected_witness:
  "llm_Validate env_spec_example = Validate_spec
   \<and> fst (assessPrompt env_spec_example (po_example ''numerical'' 0.9)
          (Some (prompt_example ''p'')) (world_example [Inr ''no strengths'']))
     = (zeroEntry, Some (Wrap ''invalid assessment structure''
                           (New ''strengths: at least one item is required'')))
   \<and> snd (fst (assessPrompt env_spec_example (po_example ''numerical'' 0.9)
                 (Some (prompt_example ''p'')) (world_example [Inr ''ok'']))) = None
   \<and> Strengths (Assessment (fst (fst (assessPrompt env_spec_example
          (po_example ''numerical'' 0.9) (Some (prompt_example ''p''))
          (world_example [Inr ''ok''])))))
     = [Strength ''p'' ''e'']"
  using C4_empty_sequence_rejected [of env_spec_example "world_example [Inr ''no strengths'']"
      "po_example ''numerical'' 0.9" "Some (prompt_example ''p'')"]
    C4_empty_sequence_rejected [of env_spec_example "world_example [Inr ''ok'']"
      "po_example ''numerical'' 0.9" "Some (prompt_example ''p'')"]
  by (simp add: env_spec_example_def env_example_def world_example_def scripted_def
      assessPrompt_def Generate_def assessRequest_def Validate_spec_def assessment_example_def
      normalizeGrade_spec_def letterScale_def inScale_def)

text \<open>
  C5.  Each of the four failures of \<open>assessPrompt\<close> (generation, JSON decoding,
  structural validation, grade normalization) is returned to the caller as an error
  that wraps the underlying cause, and whenever \<open>assessPrompt\<close> returns an error the
  entry returned with it is the empty value \<open>OptimizationEntry{}\<close>.
\<close>

theorem C5_assess_errors:
  "(\<forall>err s'. llm_Generate env (service w) (assessRequest env po prompt) = (Inl err, s')
       \<longrightarrow> fst (assessPrompt env po prompt w)
             = (zeroEntry, Some (Wrap ''failed to assess prompt'' err)))
   \<and> (\<forall>response s' err.
         llm_Generate env (service w) (assessRequest env po prompt) = (Inr response, s')
         \<and> unmarshalAssessment env (cleanJSONResponse env response) = Inl err
       \<longrightarrow> fst (assessPrompt env po prompt w)
             = (zeroEntry, Some (Wrap ''failed to parse assessment response'' err)))
   \<and> (\<forall>response s' a err.
         llm_Generate env (service w) (assessRequest env po prompt) = (Inr response, s')
         \<and> unmarshalAssessment env (cleanJSONResponse env response) = Inr a
         \<and> llm_Validate env a = Some err
       \<longrightarrow> fst (assessPrompt env po prompt w)
             = (zeroEntry, Some (Wrap ''invalid assessment structure'' err)))
   \<and> (\<forall>response s' a err.
         llm_Generate env (service w) (assessRequest env po prompt) = (Inr response, s')
         \<and> unmarshalAssessment env (cleanJSONResponse env response) = Inr a
         \<and> llm_Validate env a = None
         \<and> normalizeGrade env (OverallGrade a) (OverallScore a) = Inl err
       \<longrightarrow> fst (assessPrompt env po prompt w)
             = (zeroEntry, Some (Wrap ''invalid overall grade'' err)))
   \<and> (\<forall>e. snd (fst (assessPrompt env po prompt w)) = Some e
       \<longrightarrow> Unwrap e \<noteq> None \<and> fst (fst (assessPrompt env po prompt w)) = zeroEntry)"
proof (intro conjI allI impI)
  fix err s'
  assume "llm_Generate env (service w) (assessRequest env po prompt) = (Inl err, s')"
  then show "fst (assessPrompt env po prompt w)
      = (zeroEntry, Some (Wrap ''failed to assess prompt'' err))"
    by (rule assessPrompt_generation_failure)
next
  fix response s' err
  assume "llm_Generate env (service w) (assessRequest env po prompt) = (Inr response, s')
      \<and> unmarshalAssessment env (cleanJSONResponse env response) = Inl err"
  then show "fst (assessPrompt env po prompt w)
      = (zeroEntry, Some (Wrap ''failed to parse assessment response'' err))"
    using assessPrompt_generated [of env w po prompt response s'] by simp
next
  fix response s' a err
  assume "llm_Generate env (service w) (assessRequest env po prompt) = (Inr response, s')
      \<and> unmarshalAssessment env (cleanJSONResponse env response) = Inr a
      \<and> llm_Validate env a = Some err"
  then show "fst (assessPrompt env po prompt w)
      = (zeroEntry, Some (Wrap ''invalid assessment structure'' err))"
    using assessPrompt_generated [of env w po prompt response s'] by simp
next
  fix response s' a err
  assume "llm_Generate env (service w) (assessRequest env po prompt) = (Inr response, s')
      \<and> unmarshalAssessment env (cleanJSONResponse env response) = Inr a
      \<and> llm_Validate env a = None
      \<and> normalizeGrade env (OverallGrade a) (OverallScore a) = Inl err"
  then show "fst (assessPrompt env po prompt w)
      = (zeroEntry, Some (Wrap ''invalid overall grade'' err))"
    using assessPrompt_generated [of env w po prompt response s'] by simp
next
  fix e
  assume "snd (fst (assessPrompt env po prompt w)) = Some e"
  then show "Unwrap e \<noteq> None"
    by (rule assessPrompt_error_wraps)
next
  fix e
  assume "snd (fst (assessPrompt env po prompt w)) = Some e"
  then have "snd (fst (assessPrompt env po prompt w)) \<noteq> None" by simp
  then show "fst (fst (assessPrompt env po prompt w)) = zeroEntry"
    by (rule assessPrompt_error_zero)
qed

theorem C5_assess_errors_witness:
  "fst (assessPrompt env_example (po_example ''numerical'' 0.9) (Some (prompt_example ''p''))
          (world_example [Inl (New ''connection refused'')]))
     = (zeroEntry, Some (Wrap ''failed to assess prompt'' (New ''connection refused'')))
   \<and> fst (assessPrompt env_example (po_example ''numerical'' 0.9) (Some (prompt_example ''p''))
          (world_example [Inr ''not json'']))
     = (zeroEntry, Some (Wrap ''failed to parse assessment response''
                           (New ''invalid character'')))
   \<and> fst (assessPrompt env_example (po_example ''numerical'' 0.9) (Some (prompt_example ''p''))
          (world_example [Inr ''no strengths'']))
     = (zeroEntry, Some (Wrap ''invalid assessment structure'' (New ''strengths: required'')))
   \<and> fst (assessPrompt env_example (po_example ''numerical'' 0.9) (Some (prompt_example ''p''))
          (world_example [Inr ''bad grade'']))
     = (zeroEntry, Some (Wrap ''invalid overall grade''
                           (New ''invalid grade format: excellent'')))"
  using C5_assess_errors [of env_example "world_example [Inl (New ''connection refused'')]"
      "po_example ''numerical'' 0.9" "Some (prompt_example ''p'')"]
    C5_assess_errors [of env_example "world_example [Inr ''not json'']"
      "po_example ''numerical'' 0.9" "Some (prompt_example ''p'')"]
    C5_assess_errors [of env_example "world_example [Inr ''no strengths'']"
      "po_example ''numerical'' 0.9" "Some (prompt_example ''p'')"]
    C5_assess_errors [of env_example "world_example [Inr ''bad grade'']"
      "po_example ''numerical'' 0.9" "Some (prompt_example ''p'')"]
  by (simp add: env_example_def world_example_def scripted_def assessment_example_def)

text \<open>
  C6.  For a call of \<open>ExtractStructuredData\<close> with valid inputs (a context, a service,
  a text that is not blank, a schema that can be generated) whose first generation call
  returns a text: unless that text, lowercased and trimmed, is exactly \<open>yes\<close>, the
  function returns the error \<open>text does not contain enough extractable information\<close>
  and the only request it has issued is the validation request.  The answers \<open>shi\<close>
  and \<open>fou\<close>, which the first directive of the validation request tells the model
  to give, are such texts, whatever the Unicode case tables contain.
\<close>

theorem C6_only_yes_passes:
  assumes "ctx \<noteq> None" and "TrimSpace text \<noteq> ''''"
    and "GenerateJSONSchema T = Inr schema"
    and "generate (service w) (validationPrompt text) = (Inr validationResponse, s')"
    and "TrimSpace (ToLower (caseTable T) validationResponse) \<noteq> ''yes''
         \<or> validationResponse = shi \<or> validationResponse = fou"
  shows "ExtractStructuredData T ctx (Some generate) text opts w
      = ((None, Some (New ''text does not contain enough extractable information'')),
         w\<lparr>service := s', requests := requests w @ [validationPrompt text]\<rparr>)
    \<and> hd (Directives (validationPrompt text)) = zh_only_answer @ quoted shi @ zh_or @ quoted fou"
proof
  have "TrimSpace (ToLower (caseTable T) validationResponse) \<noteq> ''yes''"
    using assms(5) shi_not_yes [of "caseTable T"] fou_not_yes [of "caseTable T"] by auto
  with assms(1-4)
  show "ExtractStructuredData T ctx (Some generate) text opts w
      = ((None, Some (New ''text does not contain enough extractable information'')),
         w\<lparr>service := s', requests := requests w @ [validationPrompt text]\<rparr>)"
    by (rule ExtractStructuredData_rejected)
next
  show "hd (Directives (validationPrompt text))
      = zh_only_answer @ quoted shi @ zh_or @ quoted fou"
    by (simp add: validationPrompt_def Apply_def WithDirectives_def WithOutput_def NewPrompt_def)
qed

theorem C6_only_yes_passes_witness:
  "ExtractStructuredData extraction_example (Some ()) (Some scripted) ''John is 32'' []
      (world_example [Inr shi, Inr ''{}''])
     = ((None, Some (New ''text does not contain enough extractable information'')),
        (world_example [Inr ''{}''])\<lparr>requests := [validationPrompt ''John is 32'']\<rparr>)
   \<and> ExtractStructuredData extraction_example (Some ()) (Some scripted) ''John is 32'' []
      (world_example [Inr fou, Inr ''{}''])
     = ((None, Some (New ''text does not contain enough extractable information'')),
        (world_example [Inr ''{}''])\<lparr>requests := [validationPrompt ''John is 32'']\<rparr>)"
proof -
  have ctx: "Some () \<noteq> None" by simp
  have schema: "GenerateJSONSchema extraction_example = Inr ''{}''"
    by (simp add: extraction_example_def)
  have gen: "scripted (service (world_example [Inr a, Inr ''{}''])) (validationPrompt ''John is 32'')
      = (Inr a, [Inr ''{}''])" for a
    by (simp add: scripted_def world_example_def)
  show ?thesis
    using C6_only_yes_passes [where generate = scripted and opts = "[]",
        OF ctx TrimSpace_example schema gen [of shi]]
      C6_only_yes_passes [where generate = scripted and opts = "[]",
        OF ctx TrimSpace_example schema gen [of fou]]
    by (simp add: world_example_def)
qed

text \<open>
  C7.  When the configured rating system is the empty string, \<open>isOptimizationGoalMet\<close>
  returns false and no error for every assessment.  So, in the controller as the spec
  describes it, the goal is never met: a run never fails in Deciding, and a run that
  succeeds has gone through every round it was allowed (one round when the maximum is
  zero) and returns the prompt chosen at the iteration cap.
\<close>

theorem C7_empty_rating_system:
  assumes "ratingSystem po = ''''"
  shows "(\<forall>a. isOptimizationGoalMet po a = (False, None))
    \<and> (\<forall>(env :: 's collaborators) retryable rule (w :: 's world) p.
          outcome (OptimizePrompt env retryable rule po w) = Done p
          \<longrightarrow> count_list (phases (OptimizePrompt env retryable rule po w)) Scoring
                = max 1 (iterations po)
            \<and> p = Prompt (capChoice rule (scored (OptimizePrompt env retryable rule po w))))
    \<and> (\<forall>(env :: 's collaborators) retryable rule (w :: 's world) k e.
          outcome (OptimizePrompt env retryable rule po w) \<noteq> Failed Deciding k e)"
proof (intro conjI allI impI)
  fix a
  show "isOptimizationGoalMet po a = (False, None)"
    using assms by (simp add: isOptimizationGoalMet_def)
next
  fix env :: "'s collaborators" and retryable rule and w :: "'s world" and p
  assume d: "outcome (OptimizePrompt env retryable rule po w) = Done p"
  have n: "Suc (iterations po - 1) = max 1 (iterations po)"
    by (cases "iterations po") simp_all
  note loop = rounds_no_rating_system [OF assms, of env retryable rule "iterations po - 1"
      "[]" "initialPrompt po" w, THEN conjunct1, rule_format, of p]
  show "count_list (phases (OptimizePrompt env retryable rule po w)) Scoring
      = max 1 (iterations po)"
    using loop d n by (simp add: OptimizePrompt_def del: rounds.simps)
  show "p = Prompt (capChoice rule (scored (OptimizePrompt env retryable rule po w)))"
    using loop d by (simp add: OptimizePrompt_def del: rounds.simps)
next
  fix env :: "'s collaborators" and retryable rule and w :: "'s world" and k e
  show "outcome (OptimizePrompt env retryable rule po w) \<noteq> Failed Deciding k e"
    using rounds_no_rating_system [OF assms, of env retryable rule "iterations po - 1"
        "[]" "initialPrompt po" w, THEN conjunct2]
    by (simp add: OptimizePrompt_def del: rounds.simps)
qed

theorem C7_empty_rating_system_witness:
  "ratingSystem (po_example '''' 0) = ''''
   \<and> isOptimizationGoalMet (po_example '''' 0) (assessment_example 20 ''A+'') = (False, None)
   \<and> outcome (OptimizePrompt env_example (\<lambda>e. True) Final (po_example '''' 0)
                (world_example [Inr ''ok'']))
       = Done (Some (prompt_example ''initial''))
   \<and> count_list (phases (OptimizePrompt env_example (\<lambda>e. True) Final (po_example '''' 0)
                (world_example [Inr ''ok'']))) Scoring = 1"
proof -
  let ?po = "po_example '''' 0"
  let ?w = "world_example [Inr ''ok'']"
  let ?entry = "\<lparr>Prompt = Some (prompt_example ''initial''),
                 Assessment = assessment_example 18 ''A''\<rparr>"
  have e: "ratingSystem ?po = ''''"
    by (simp add: po_example_def)
  have a: "assessPrompt env_example ?po (initialPrompt ?po) ?w
      = ((?entry, None),
         ?w\<lparr>service := [], requests := [assessRequest env_example ?po (initialPrompt ?po)]\<rparr>)"
    by (simp add: assessPrompt_def Generate_def env_example_def world_example_def scripted_def
        po_example_def assessment_example_def assessRequest_def)
  have r: "withRetry (\<lambda>e. True) (retryDelay ?po) (maxRetries ?po)
        (assessPrompt env_example ?po (initialPrompt ?po)) ?w
      = ((Inr ?entry, 1),
         ?w\<lparr>service := [], requests := [assessRequest env_example ?po (initialPrompt ?po)]\<rparr>)"
    using a by (rule withRetry_first_success)
  have g: "isOptimizationGoalMet (recordEntry ?entry ?po) (Assessment ?entry) = (False, None)"
    by (simp add: isOptimizationGoalMet_def recordEntry_def po_example_def Let_def)
  have z: "iterations ?po - 1 = 0"
    by (simp add: po_example_def)
  have run: "outcome (OptimizePrompt env_example (\<lambda>e. True) Final ?po ?w)
      = Done (Some (prompt_example ''initial''))"
    using r g z
    by (simp add: OptimizePrompt_def rounds_zero capChoice_def po_example_def
        del: rounds.simps)
  have all: "\<forall>a. isOptimizationGoalMet ?po a = (False, None)"
    using C7_empty_rating_system [OF e] by (rule conjunct1)
  have count: "count_list (phases (OptimizePrompt env_example (\<lambda>e. True) Final ?po ?w)) Scoring
      = max 1 (iterations ?po)"
    using C7_empty_rating_system [OF e, THEN conjunct2, THEN conjunct1, rule_format,
        of env_example "\<lambda>e. True" Final ?w "Some (prompt_example ''initial'')"] run
    by blast
  show ?thesis
    using e all run count by (simp add: po_example_def)
qed

text \<open>
  C8.  A generation failure and a decode failure of \<open>generateImprovedPrompt\<close> are each
  returned to the caller as an error that wraps the underlying cause, with a nil
  prompt; whenever the function returns an error the prompt is nil, so the previous
  prompt is never returned in its place.
\<close>

theorem C8_improve_errors:
  "(\<forall>err s'. llm_Generate env (service w) (improveRequest env po prevEntry) = (Inl err, s')
       \<longrightarrow> fst (generateImprovedPrompt env po prevEntry w)
             = (None, Some (Wrap ''failed to generate improved prompt'' err)))
   \<and> (\<forall>response s' err.
         llm_Generate env (service w) (improveRequest env po prevEntry) = (Inr response, s')
         \<and> unmarshalImproved env (cleanJSONResponse env response) = Inl err
       \<longrightarrow> fst (generateImprovedPrompt env po prevEntry w)
             = (None, Some (Wrap ''failed to parse improved prompts'' err)))
   \<and> (\<forall>e. snd (fst (generateImprovedPrompt env po prevEntry w)) = Some e
       \<longrightarrow> Unwrap e \<noteq> None \<and> fst (fst (generateImprovedPrompt env po prevEntry w)) = None)"
proof (intro conjI allI impI)
  fix err s'
  assume "llm_Generate env (service w) (improveRequest env po prevEntry) = (Inl err, s')"
  then show "fst (generateImprovedPrompt env po prevEntry w)
      = (None, Some (Wrap ''failed to generate improved prompt'' err))"
    by (rule generateImprovedPrompt_generation_failure)
next
  fix response s' err
  assume "llm_Generate env (service w) (improveRequest env po prevEntry) = (Inr response, s')
      \<and> unmarshalImproved env (cleanJSONResponse env response) = Inl err"
  then show "fst (generateImprovedPrompt env po prevEntry w)
      = (None, Some (Wrap ''failed to parse improved prompts'' err))"
    using generateImprovedPrompt_generated [of env w po prevEntry response s'] by simp
next
  fix e
  assume "snd (fst (generateImprovedPrompt env po prevEntry w)) = Some e"
  then show "Unwrap e \<noteq> None"
    by (rule generateImprovedPrompt_error_wraps)
next
  fix e
  assume "snd (fst (generateImprovedPrompt env po prevEntry w)) = Some e"
  then have "snd (fst (generateImprovedPrompt env po prevEntry w)) \<noteq> None" by simp
  then show "fst (fst (generateImprovedPrompt env po prevEntry w)) = None"
    by (rule generateImprovedPrompt_error_nil)
qed

theorem C8_improve_errors_witness:
  "fst (generateImprovedPrompt env_example (po_example ''numerical'' 0.9) entry_example
          (world_example [Inl (New ''connection refused'')]))
     = (None, Some (Wrap ''failed to generate improved prompt'' (New ''connection refused'')))
   \<and> fst (generateImprovedPrompt env_example (po_example ''numerical'' 0.9) entry_example
          (world_example [Inr ''not json'']))
     = (None, Some (Wrap ''failed to parse improved prompts'' (New ''invalid character'')))"
  using C8_improve_errors [of env_example "world_example [Inl (New ''connection refused'')]"
      "po_example ''numerical'' 0.9" entry_example]
    C8_improve_errors [of env_example "world_example [Inr ''not json'']"
      "po_example ''numerical'' 0.9" entry_example]
  by (simp add: env_example_def world_example_def scripted_def)

text \<open>
  C9.  A run of the controller, as the spec describes it, with a maximum of zero
  iterations goes through Scoring exactly once and never through Improving, and it does
  not fail in Improving.  It issues at least one assessment request, so it never returns
  without having scored.  When the Scoring pass yields an entry and the goal can be
  evaluated, the run has scored exactly that entry and succeeds with its initial prompt,
  whether or not the goal is met; when the first attempt of the assessment succeeds, the
  run has issued exactly one request.  Whenever the run succeeds, the prompt it returns
  is its initial prompt.
\<close>

theorem C9_zero_iterations:
  assumes "iterations po = 0"
  shows "count_list (phases (OptimizePrompt env retryable rule po w)) Scoring = 1
    \<and> Improving \<notin> set (phases (OptimizePrompt env retryable rule po w))
    \<and> (\<forall>k e. outcome (OptimizePrompt env retryable rule po w) \<noteq> Failed Improving k e)
    \<and> length (requests w) < length (requests (endWorld (OptimizePrompt env retryable rule po w)))
    \<and> (\<forall>p. outcome (OptimizePrompt env retryable rule po w) = Done p \<longrightarrow> p = initialPrompt po)
    \<and> (\<forall>entry k w1.
          withRetry retryable (retryDelay po) (maxRetries po)
            (assessPrompt env po (initialPrompt po)) w = ((Inr entry, k), w1)
          \<and> snd (isOptimizationGoalMet (recordEntry entry po) (Assessment entry)) = None
        \<longrightarrow> outcome (OptimizePrompt env retryable rule po w) = Done (initialPrompt po)
          \<and> phases (OptimizePrompt env retryable rule po w) = [Scoring, Deciding]
          \<and> scored (OptimizePrompt env retryable rule po w) = [entry])
    \<and> (\<forall>entry w1.
          assessPrompt env po (initialPrompt po) w = ((entry, None), w1)
        \<longrightarrow> requests (endWorld (OptimizePrompt env retryable rule po w))
              = requests w @ [assessRequest env po (initialPrompt po)])"
proof -
  let ?engine = "assessPrompt env po (initialPrompt po)"
  let ?run = "OptimizePrompt env retryable rule po w"
  obtain res k w1 where
    retry: "withRetry retryable (retryDelay po) (maxRetries po) ?engine w = ((res, k), w1)"
    by (metis prod.exhaust)
  have run: "?run = rounds env retryable rule 0 po [] (initialPrompt po) w"
    using assms by (simp add: OptimizePrompt_def)
  have grows: "length (requests w0) < length (requests (snd (?engine w0)))" for w0
    by (simp add: assessPrompt_requests)
  have w1: "length (requests w) < length (requests w1)"
    using withRetry_requests [of ?engine w retryable "retryDelay po" "maxRetries po"]
      grows retry by simp
  have same: "Prompt entry = initialPrompt po"
    if "withRetry retryable (retryDelay po) (maxRetries po) ?engine w = ((Inr entry, k'), w')"
    for entry k' w'
  proof (rule withRetry_success_from_engine
      [where P = "\<lambda>e. Prompt e = initialPrompt po" and engine = ?engine])
    fix w0 x' w2
    assume "?engine w0 = ((x', None), w2)"
    then show "Prompt x' = initialPrompt po"
      using assessPrompt_success_prompt [of env po "initialPrompt po" w0] by simp
  next
    show "withRetry retryable (retryDelay po) (maxRetries po) ?engine w = ((Inr entry, k'), w')"
      using that .
  qed
  have general: "count_list (phases ?run) Scoring = 1 \<and> Improving \<notin> set (phases ?run)
      \<and> (\<forall>k e. outcome ?run \<noteq> Failed Improving k e)
      \<and> length (requests w) < length (requests (endWorld ?run))
      \<and> (\<forall>p. outcome ?run = Done p \<longrightarrow> p = initialPrompt po)"
  proof (cases res)
    case (Inl e)
    then show ?thesis
      using retry w1 by (simp add: run rounds_zero del: rounds.simps)
  next
    case (Inr entry)
    obtain met oe where
      goal: "isOptimizationGoalMet (recordEntry entry po) (Assessment entry) = (met, oe)"
      by (metis prod.exhaust)
    have p: "Prompt entry = initialPrompt po"
      using same [of entry k w1] retry Inr by simp
    show ?thesis
    proof (cases oe)
      case None
      then show ?thesis
        using retry Inr goal w1 p
        by (simp add: run rounds_zero capChoice_single del: rounds.simps)
    next
      case (Some e)
      then show ?thesis
        using retry Inr goal w1 by (simp add: run rounds_zero del: rounds.simps)
    qed
  qed
  have scored_once: "outcome ?run = Done (initialPrompt po) \<and> phases ?run = [Scoring, Deciding]
      \<and> scored ?run = [entry]"
    if r: "withRetry retryable (retryDelay po) (maxRetries po) ?engine w = ((Inr entry, k'), w')"
      and ev: "snd (isOptimizationGoalMet (recordEntry entry po) (Assessment entry)) = None"
    for entry k' w'
  proof -
    have p: "Prompt entry = initialPrompt po"
      using r by (rule same)
    obtain met where "isOptimizationGoalMet (recordEntry entry po) (Assessment entry) = (met, None)"
      using ev by (metis prod.collapse)
    then show ?thesis
      using r p by (simp add: run rounds_zero capChoice_single del: rounds.simps)
  qed
  have one_request: "requests (endWorld ?run) = requests w @ [assessRequest env po (initialPrompt po)]"
    if ok: "?engine w = ((entry, None), w2)" for entry w2
  proof -
    have r: "withRetry retryable (retryDelay po) (maxRetries po) ?engine w = ((Inr entry, 1), w2)"
      using ok by (rule withRetry_first_success)
    have q: "requests w2 = requests w @ [assessRequest env po (initialPrompt po)]"
      using assessPrompt_requests [of env po "initialPrompt po" w] ok by simp
    show ?thesis
      using r q
      by (simp add: run rounds_zero del: rounds.simps split: prod.splits option.splits)
  qed
  show ?thesis
    using general scored_once one_request by blast
qed

theorem C9_zero_iterations_witness:
  "iterations (po_example ''numerical'' 0.95) = 0
   \<and> outcome (OptimizePrompt env_example (\<lambda>e. True) Final (po_example ''numerical'' 0.95)
                (world_example [Inr ''ok'', Inr ''bold'', Inr ''ok'']))
       = Done (Some (prompt_example ''initial''))
   \<and> phases (OptimizePrompt env_example (\<lambda>e. True) Final (po_example ''numerical'' 0.95)
                (world_example [Inr ''ok'', Inr ''bold'', Inr ''ok'']))
       = [Scoring, Deciding]
   \<and> isOptimizationGoalMet (po_example ''numerical'' 0.95) (assessment_example 18 ''A'')
       = (False, None)"
proof -
  let ?po = "po_example ''numerical'' 0.95"
  let ?w = "world_example [Inr ''ok'', Inr ''bold'', Inr ''ok'']"
  let ?entry = "\<lparr>Prompt = Some (prompt_example ''initial''),
                 Assessment = assessment_example 18 ''A''\<rparr>"
  have z: "iterations ?po = 0"
    by (simp add: po_example_def)
  have a: "assessPrompt env_example ?po (initialPrompt ?po) ?w
      = ((?entry, None),
         ?w\<lparr>service := [Inr ''bold'', Inr ''ok''],
             requests := [assessRequest env_example ?po (initialPrompt ?po)]\<rparr>)"
    by (simp add: assessPrompt_def Generate_def env_example_def world_example_def scripted_def
        po_example_def assessment_example_def assessRequest_def)
  have g: "isOptimizationGoalMet (recordEntry ?entry ?po) (Assessment ?entry) = (False, None)"
    using product_threshold_095
    by (simp add: isOptimizationGoalMet_def recordEntry_def po_example_def
        assessment_example_def Let_def)
  have g': "isOptimizationGoalMet ?po (assessment_example 18 ''A'') = (False, None)"
    using product_threshold_095
    by (simp add: isOptimizationGoalMet_def po_example_def assessment_example_def)
  have r: "withRetry (\<lambda>e. True) (retryDelay ?po) (maxRetries ?po)
        (assessPrompt env_example ?po (initialPrompt ?po)) ?w
      = ((Inr ?entry, 1),
         ?w\<lparr>service := [Inr ''bold'', Inr ''ok''],
             requests := [assessRequest env_example ?po (initialPrompt ?po)]\<rparr>)"
    using a by (rule withRetry_first_success)
  show ?thesis
    using C9_zero_iterations [OF z, of env_example "\<lambda>e. True" Final ?w] r g g' z
    by (simp add: po_example_def)
qed

text \<open>
  C10.  Under the grade normalization that the spec describes, a numeric overall grade
  in [0,20] is normalized to a token of the six-letter scale F, D, C, B, A, A+ (the
  mapping is total), also as \<open>assessPrompt\<close> applies it after validation; and the
  mapping is monotonic: a higher score never gets a lower letter.  This holds whatever
  the two boundaries are that the spec leaves open.
\<close>

theorem C10_normalized_grade:
  assumes "0 \<le> v" and "v \<le> 20"
  shows "letterForScore cutB cutC v \<in> set letterScale
    \<and> set letterScale = {''F'', ''D'', ''C'', ''B'', ''A'', ''A+''}
    \<and> (\<forall>grade score. grade \<notin> set letterScale \<and> parseFloat grade = Some v
          \<longrightarrow> normalizeGrade_spec parseFloat cutB cutC grade score
                = Inr (letterForScore cutB cutC v))
    \<and> (\<forall>v'. v \<le> v' \<and> v' \<le> 20
          \<longrightarrow> letterRank (letterForScore cutB cutC v) \<le> letterRank (letterForScore cutB cutC v'))
    \<and> (\<forall>(env :: 's collaborators) (w :: 's world) po prompt response s' a.
          normalizeGrade env = normalizeGrade_spec parseFloat cutB cutC
          \<and> llm_Generate env (service w) (assessRequest env po prompt) = (Inr response, s')
          \<and> unmarshalAssessment env (cleanJSONResponse env response) = Inr a
          \<and> llm_Validate env a = None
          \<and> OverallGrade a \<notin> set letterScale \<and> parseFloat (OverallGrade a) = Some v
        \<longrightarrow> snd (fst (assessPrompt env po prompt w)) = None
          \<and> OverallGrade (Assessment (fst (fst (assessPrompt env po prompt w))))
              = letterForScore cutB cutC v)"
proof (intro conjI allI impI)
  show "letterForScore cutB cutC v \<in> set letterScale"
    by (simp add: letterForScore_def letterScale_def)
next
  show "set letterScale = {''F'', ''D'', ''C'', ''B'', ''A'', ''A+''}"
    by (simp add: letterScale_def)
next
  fix grade score
  assume "grade \<notin> set letterScale \<and> parseFloat grade = Some v"
  then show "normalizeGrade_spec parseFloat cutB cutC grade score
      = Inr (letterForScore cutB cutC v)"
    by (simp add: normalizeGrade_spec_def)
next
  fix v'
  assume "v \<le> v' \<and> v' \<le> 20"
  then show "letterRank (letterForScore cutB cutC v) \<le> letterRank (letterForScore cutB cutC v')"
    by (simp add: letterForScore_def letterRank_def letterScale_def)
next
  fix env :: "'s collaborators" and w :: "'s world" and po prompt response s' a
  assume h: "normalizeGrade env = normalizeGrade_spec parseFloat cutB cutC
      \<and> llm_Generate env (service w) (assessRequest env po prompt) = (Inr response, s')
      \<and> unmarshalAssessment env (cleanJSONResponse env response) = Inr a
      \<and> llm_Validate env a = None
      \<and> OverallGrade a \<notin> set letterScale \<and> parseFloat (OverallGrade a) = Some v"
  then have n: "normalizeGrade env (OverallGrade a) (OverallScore a)
      = Inr (letterForScore cutB cutC v)"
    by (simp add: normalizeGrade_spec_def)
  have r: "fst (assessPrompt env po prompt w)
      = (\<lparr>Prompt = prompt, Assessment = a\<lparr>OverallGrade := letterForScore cutB cutC v\<rparr>\<rparr>, None)"
    using assessPrompt_generated [of env w po prompt response s'] h n by simp
  show "snd (fst (assessPrompt env po prompt w)) = None"
    using r by simp
  show "OverallGrade (Assessment (fst (fst (assessPrompt env po prompt w))))
      = letterForScore cutB cutC v"
    using r by simp
qed

theorem C10_normalized_grade_witness:
  "letterForScore 11 5 18 \<in> set letterScale
   \<and> normalizeGrade_spec parse_example 11 5 ''18'' 18 = Inr ''A''
   \<and> letterRank (letterForScore 11 5 12.5) \<le> letterRank (letterForScore 11 5 18)
   \<and> OverallGrade (Assessment (fst (fst (assessPrompt env_spec_example (po_example ''numerical'' 0.9)
          (Some (prompt_example ''p'')) (world_example [Inr ''numeric grade''])))))
     = ''A''"
proof -
  have h18: "0 \<le> (18::real)" "18 \<le> (20::real)"
    and h12: "0 \<le> (12.5::real)" "12.5 \<le> (20::real)"
    by simp_all
  note at18 = C10_normalized_grade [where cutB = 11 and cutC = 5 and parseFloat = parse_example,
      OF h18]
  note at12 = C10_normalized_grade [where cutB = 11 and cutC = 5 and parseFloat = parse_example,
      OF h12]
  have member: "letterForScore 11 5 18 \<in> set letterScale"
    using at18 by (rule conjunct1)
  have "normalizeGrade_spec parse_example 11 5 ''18'' 18 = Inr (letterForScore 11 5 18)"
    using at18 [THEN conjunct2, THEN conjunct2, THEN conjunct1, rule_format, of "''18''" 18]
    by (simp add: letterScale_def parse_example_def)
  then have token: "normalizeGrade_spec parse_example 11 5 ''18'' 18 = Inr ''A''"
    by (simp add: letterForScore_def)
  have mono: "letterRank (letterForScore 11 5 12.5) \<le> letterRank (letterForScore 11 5 18)"
    using at12 [THEN conjunct2, THEN conjunct2, THEN conjunct2, THEN conjunct1, rule_format,
        of 18]
    by simp
  have "OverallGrade (Assessment (fst (fst (assessPrompt env_spec_example (po_example ''numerical'' 0.9)
          (Some (prompt_example ''p'')) (world_example [Inr ''numeric grade''])))))
     = letterForScore 11 5 18"
    using at18 [THEN conjunct2, THEN conjunct2, THEN conjunct2, THEN conjunct2, rule_format,
        of env_spec_example "world_example [Inr ''numeric grade'']" "po_example ''numerical'' 0.9"
          "Some (prompt_example ''p'')" "''numeric grade''" "[]" "assessment_example 18 ''18''"]
    by (simp add: env_spec_example_def env_example_def world_example_def scripted_def
        Validate_spec_def assessment_example_def letterScale_def inScale_def parse_example_def)
  then have applied: "OverallGrade (Assessment (fst (fst (assessPrompt env_spec_example
          (po_example ''numerical'' 0.9) (Some (prompt_example ''p''))
          (world_example [Inr ''numeric grade''])))))
     = ''A''"
    by (simp add: letterForScore_def)
  show ?thesis
    using member token mono applied by simp
qed

end
